theory Spec2Isabelle
  imports Complex_Main "HOL-Library.Sublist"
begin

section \<open>Values of the JavaScript runtime\<close>

text \<open>
  Strings are lists of characters; one character stands for one UTF-16 code unit (those
  below 256 are covered), so \<open>take\<close> and \<open>length\<close> count what \<^verbatim>\<open>slice\<close> and
  \<^verbatim>\<open>.length\<close> count. JSON numbers are rationals. A thrown value is either an \<^verbatim>\<open>Error\<close> instance carrying its message, or some other value.
\<close>

datatype exn = Error string | Thrown

text \<open>The result of \<^verbatim>\<open>JSON.parse\<close>: any JSON value. \<^verbatim>\<open>undefined\<close> is \<open>None\<close> of \<open>json option\<close>.\<close>

datatype json =
    JNull
  | JBool bool
  | JNumber rat
  | JString string
  | JArray "json list"
  | JObject "(string \<times> json) list"

datatype number = Num rat | NaN | PosInfinity | NegInfinity

type_synonym date = int

definition nl :: string where
  "nl = [CHR 0x0A]"

text \<open>The decimal digit of \<open>d < 10\<close>.\<close>

definition digit :: "nat \<Rightarrow> char" where
  "digit d = ''0123456789'' ! d"

fun show_nat :: "nat \<Rightarrow> string" where
  "show_nat n = (if n < 10 then [digit n] else show_nat (n div 10) @ [digit (n mod 10)])"

declare show_nat.simps [simp del]

text \<open>\<^verbatim>\<open>String(n)\<close> of an integer-valued number: its decimal numeral, with a sign when negative.\<close>

definition show_int :: "int \<Rightarrow> string" where
  "show_int i = (if i < 0 then CHR ''-'' # show_nat (nat (- i)) else show_nat (nat i))"

text \<open>\<^verbatim>\<open>xs.join(sep)\<close> on an array of strings.\<close>

fun join :: "string \<Rightarrow> string list \<Rightarrow> string" where
  "join sep [] = []"
| "join sep [x] = x"
| "join sep (x # y # ys) = x @ sep @ join sep (y # ys)"

text \<open>Truthiness of a JSON value, as \<^verbatim>\<open>||\<close> and \<^verbatim>\<open>?:\<close> test it.\<close>

fun js_truthy :: "json \<Rightarrow> bool" where
  "js_truthy JNull = False"
| "js_truthy (JBool b) = b"
| "js_truthy (JNumber r) = (r \<noteq> 0)"
| "js_truthy (JString s) = (s \<noteq> [])"
| "js_truthy (JArray xs) = True"
| "js_truthy (JObject kvs) = True"

text \<open>
  Property access \<^verbatim>\<open>args.key\<close>: on \<^verbatim>\<open>null\<close> it throws a TypeError; on an object it is
  the value stored last under the key, or \<^verbatim>\<open>undefined\<close>; no other JSON value has a property
  of one of the names the dispatcher reads.
\<close>

fun get_prop :: "json \<Rightarrow> string \<Rightarrow> exn + json option" where
  "get_prop JNull key = Inl (Error (''Cannot read properties of null (reading '' @ [CHR 0x27] @ key @ [CHR 0x27] @ '')''))"
| "get_prop (JObject kvs) key = Inr (map_of (rev kvs) key)"
| "get_prop v key = Inr None"

text \<open>\<^verbatim>\<open>Math.min\<close> on two numbers.\<close>

fun Math_min :: "number \<Rightarrow> number \<Rightarrow> number" where
  "Math_min NaN b = NaN"
| "Math_min a NaN = NaN"
| "Math_min NegInfinity b = NegInfinity"
| "Math_min a NegInfinity = NegInfinity"
| "Math_min PosInfinity b = b"
| "Math_min a PosInfinity = a"
| "Math_min (Num a) (Num b) = Num (min a b)"

text \<open>
  What the runtime and the locale supply: number and string coercions of values the
  tool schemas exclude, the printing of fractional numbers, and the locale's date formats.
\<close>

record runtime =
  JSON_parse :: "string \<Rightarrow> exn + json"
  ToNumber_other :: "json \<Rightarrow> number"
  Number_toString :: "rat \<Rightarrow> string"
  toLocaleDateString :: "date \<Rightarrow> string"
  toLocaleTimeString :: "date \<Rightarrow> string"
  toLocaleString :: "date \<Rightarrow> string"

fun ToNumber :: "runtime \<Rightarrow> json \<Rightarrow> number" where
  "ToNumber rt (JNumber r) = Num r"
| "ToNumber rt (JBool b) = Num (if b then 1 else 0)"
| "ToNumber rt JNull = Num 0"
| "ToNumber rt v = ToNumber_other rt v"

text \<open>Interpolation \<^verbatim>\<open>${v}\<close> of a JSON value into a template literal.\<close>

fun js_String :: "runtime \<Rightarrow> json \<Rightarrow> string" where
  "js_String rt JNull = ''null''"
| "js_String rt (JBool b) = (if b then ''true'' else ''false'')"
| "js_String rt (JNumber r) = Number_toString rt r"
| "js_String rt (JString s) = s"
| "js_String rt (JArray xs) =
     join '','' (map (\<lambda>x. case x of JNull \<Rightarrow> [] | _ \<Rightarrow> js_String rt x) xs)"
| "js_String rt (JObject kvs) = ''[object Object]''"

definition interpolate :: "runtime \<Rightarrow> json option \<Rightarrow> string" where
  "interpolate rt v = (case v of None \<Rightarrow> ''undefined'' | Some j \<Rightarrow> js_String rt j)"

section \<open>The mail service\<close>

text \<open>
  \<^verbatim>\<open>EmailMessage\<close>, \<^verbatim>\<open>EmailSearchResult\<close>, \<^verbatim>\<open>EmailDraft\<close> and \<^verbatim>\<open>SendResult\<close> of the gmail
  module. A draft is built from unchecked casts of the arguments, so its fields hold
  whatever JSON value the caller sent.
\<close>

record email_message =
  email_id :: string
  email_threadId :: string
  email_from :: string
  email_to :: "string list"
  email_cc :: "string list option"
  email_subject :: string
  email_body :: string
  email_bodyHtml :: "string option"
  email_date :: date
  email_labels :: "string list"
  email_isUnread :: bool
  email_snippet :: string

record email_search_result =
  result_messages :: "email_message list"
  nextPageToken :: "string option"
  totalEstimate :: nat

record email_draft =
  draft_to :: "json option"
  draft_subject :: "json option"
  draft_body :: "json option"
  draft_cc :: "json option"
  draft_inReplyTo :: "json option"
  draft_threadId :: "json option"

record send_result =
  sent_messageId :: string
  sent_threadId :: string

text \<open>
  The operations of the gmail module that the dispatcher calls. Each one talks to the
  mail service: it reads and changes the outside world \<open>'w\<close>, and either returns or throws.
  An argument is passed as the dispatcher found it (its casts check nothing). The unread
  count is the integer \<^verbatim>\<open>messagesUnread\<close> of the inbox label, or 0.
\<close>

record 'w gmail_module =
  listMessages :: "json option \<Rightarrow> number \<Rightarrow> 'w \<Rightarrow> (exn + email_search_result) \<times> 'w"
  getMessage :: "json option \<Rightarrow> 'w \<Rightarrow> (exn + email_message) \<times> 'w"
  sendMessage :: "email_draft \<Rightarrow> 'w \<Rightarrow> (exn + send_result) \<times> 'w"
  archiveMessage :: "json option \<Rightarrow> 'w \<Rightarrow> (exn + unit) \<times> 'w"
  trashMessage :: "json option \<Rightarrow> 'w \<Rightarrow> (exn + unit) \<times> 'w"
  markAsRead :: "json option \<Rightarrow> 'w \<Rightarrow> (exn + unit) \<times> 'w"
  markAsUnread :: "json option \<Rightarrow> 'w \<Rightarrow> (exn + unit) \<times> 'w"
  getUnreadCount :: "'w \<Rightarrow> (exn + int) \<times> 'w"
  getThread :: "json option \<Rightarrow> 'w \<Rightarrow> (exn + email_message list) \<times> 'w"

section \<open>The tool catalog\<close>

text \<open>\<^verbatim>\<open>getToolNames()\<close>: the names of \<^verbatim>\<open>GMAIL_TOOLS\<close>, in the order of the catalog.\<close>

definition getToolNames :: "string list" where
  "getToolNames =
     [''gmail_list_messages'', ''gmail_read_message'', ''gmail_send_message'',
      ''gmail_archive_message'', ''gmail_trash_message'', ''gmail_mark_read'',
      ''gmail_mark_unread'', ''gmail_get_unread_count'', ''gmail_get_thread'']"

section \<open>The tool dispatcher\<close>

record tool_result =
  success :: bool
  output_text :: string
  error :: "string option"

text \<open>The summary of one listed email, numbered from 1.\<close>

definition list_summary :: "runtime \<Rightarrow> nat \<times> email_message \<Rightarrow> string" where
  "list_summary rt p =
     (case p of (i, email) \<Rightarrow>
        let date = toLocaleDateString rt (email_date email);
            time = toLocaleTimeString rt (email_date email);
            unread = (if email_isUnread email then ''[UNREAD] '' else [])
        in show_nat (i + 1) @ ''. '' @ unread @ ''From: '' @ email_from email @ nl @
           ''   Subject: '' @ email_subject email @ nl @
           ''   Date: '' @ date @ '' '' @ time @ nl @
           ''   ID: '' @ email_id email @ nl @
           ''   Thread: '' @ email_threadId email @ nl @
           ''   Preview: '' @ take 100 (email_snippet email) @ ''...'')"

definition read_summary :: "runtime \<Rightarrow> email_message \<Rightarrow> string" where
  "read_summary rt email =
     ''From: '' @ email_from email @ nl @
     ''To: '' @ join '', '' (email_to email) @ nl @
     (case email_cc email of
        None \<Rightarrow> []
      | Some cc \<Rightarrow> if length cc \<noteq> 0 then ''Cc: '' @ join '', '' cc @ nl else []) @
     ''Subject: '' @ email_subject email @ nl @
     ''Date: '' @ toLocaleString rt (email_date email) @ nl @
     ''Status: '' @ (if email_isUnread email then ''Unread'' else ''Read'') @ nl @
     ''Message ID: '' @ email_id email @ nl @
     ''Thread ID: '' @ email_threadId email @ nl @
     nl @
     ''--- Body ---'' @ nl @
     email_body email"

definition thread_summary :: "runtime \<Rightarrow> nat \<Rightarrow> nat \<times> email_message \<Rightarrow> string" where
  "thread_summary rt n p =
     (case p of (i, email) \<Rightarrow>
        ''--- Message '' @ show_nat (i + 1) @ '' of '' @ show_nat n @ '' ---'' @ nl @
        ''From: '' @ email_from email @ nl @
        ''Date: '' @ toLocaleString rt (email_date email) @ nl @
        (if email_isUnread email then ''[UNREAD]'' @ nl else []) @ nl @
        email_body email)"

text \<open>
  \<^verbatim>\<open>executeToolInternal\<close>: the switch on the tool name. A case that reads an argument
  or calls the mail service may throw; the default case returns its text normally.
\<close>

definition executeToolInternal ::
    "runtime \<Rightarrow> 'w gmail_module \<Rightarrow> string \<Rightarrow> json \<Rightarrow> 'w \<Rightarrow> (exn + string) \<times> 'w" where
  "executeToolInternal rt gmail toolName args w =
    (if toolName = ''gmail_list_messages'' then
       (case get_prop args ''query'' of Inl e \<Rightarrow> (Inl e, w) | Inr query \<Rightarrow>
        (case get_prop args ''maxResults'' of Inl e \<Rightarrow> (Inl e, w) | Inr mr \<Rightarrow>
          let maxResults =
                Math_min (case mr of None \<Rightarrow> Num 10
                          | Some v \<Rightarrow> if js_truthy v then ToNumber rt v else Num 10) (Num 50)
          in (case listMessages gmail query maxResults w of
                (Inl e, w') \<Rightarrow> (Inl e, w')
              | (Inr result, w') \<Rightarrow>
                  if length (result_messages result) = 0
                  then (Inr ''No emails found matching your criteria.'', w')
                  else (Inr (''Found '' @ show_nat (length (result_messages result)) @ '' emails:'' @
                             nl @ nl @
                             join (nl @ nl)
                               (map (list_summary rt) (enumerate 0 (result_messages result)))), w'))))
     else if toolName = ''gmail_read_message'' then
       (case get_prop args ''messageId'' of Inl e \<Rightarrow> (Inl e, w) | Inr messageId \<Rightarrow>
        (case getMessage gmail messageId w of
           (Inl e, w') \<Rightarrow> (Inl e, w')
         | (Inr email, w') \<Rightarrow> (Inr (read_summary rt email), w')))
     else if toolName = ''gmail_send_message'' then
       (case get_prop args ''to'' of Inl e \<Rightarrow> (Inl e, w) | Inr to \<Rightarrow>
        (case get_prop args ''subject'' of Inl e \<Rightarrow> (Inl e, w) | Inr subject \<Rightarrow>
        (case get_prop args ''body'' of Inl e \<Rightarrow> (Inl e, w) | Inr body \<Rightarrow>
        (case get_prop args ''cc'' of Inl e \<Rightarrow> (Inl e, w) | Inr cc \<Rightarrow>
        (case get_prop args ''replyToMessageId'' of Inl e \<Rightarrow> (Inl e, w) | Inr replyTo \<Rightarrow>
        (case get_prop args ''threadId'' of Inl e \<Rightarrow> (Inl e, w) | Inr threadId \<Rightarrow>
          let draft = \<lparr>draft_to = to, draft_subject = subject, draft_body = body,
                        draft_cc = cc, draft_inReplyTo = replyTo, draft_threadId = threadId\<rparr>
          in (case sendMessage gmail draft w of
                (Inl e, w') \<Rightarrow> (Inl e, w')
              | (Inr result, w') \<Rightarrow>
                  (Inr (''Email sent successfully.'' @ nl @
                        ''Message ID: '' @ sent_messageId result @ nl @
                        ''Thread ID: '' @ sent_threadId result), w'))))))))
     else if toolName = ''gmail_archive_message'' then
       (case get_prop args ''messageId'' of Inl e \<Rightarrow> (Inl e, w) | Inr messageId \<Rightarrow>
        (case archiveMessage gmail messageId w of
           (Inl e, w') \<Rightarrow> (Inl e, w')
         | (Inr u, w') \<Rightarrow>
             (Inr (''Email '' @ interpolate rt messageId @
                   '' has been archived (removed from inbox).''), w')))
     else if toolName = ''gmail_trash_message'' then
       (case get_prop args ''messageId'' of Inl e \<Rightarrow> (Inl e, w) | Inr messageId \<Rightarrow>
        (case trashMessage gmail messageId w of
           (Inl e, w') \<Rightarrow> (Inl e, w')
         | (Inr u, w') \<Rightarrow>
             (Inr (''Email '' @ interpolate rt messageId @ '' has been moved to trash.''), w')))
     else if toolName = ''gmail_mark_read'' then
       (case get_prop args ''messageId'' of Inl e \<Rightarrow> (Inl e, w) | Inr messageId \<Rightarrow>
        (case markAsRead gmail messageId w of
           (Inl e, w') \<Rightarrow> (Inl e, w')
         | (Inr u, w') \<Rightarrow>
             (Inr (''Email '' @ interpolate rt messageId @ '' marked as read.''), w')))
     else if toolName = ''gmail_mark_unread'' then
       (case get_prop args ''messageId'' of Inl e \<Rightarrow> (Inl e, w) | Inr messageId \<Rightarrow>
        (case markAsUnread gmail messageId w of
           (Inl e, w') \<Rightarrow> (Inl e, w')
         | (Inr u, w') \<Rightarrow>
             (Inr (''Email '' @ interpolate rt messageId @ '' marked as unread.''), w')))
     else if toolName = ''gmail_get_unread_count'' then
       (case getUnreadCount gmail w of
          (Inl e, w') \<Rightarrow> (Inl e, w')
        | (Inr count, w') \<Rightarrow>
            (Inr (''You have '' @ show_int count @ '' unread email'' @
                  (if count \<noteq> 1 then ''s'' else []) @ '' in your inbox.''), w'))
     else if toolName = ''gmail_get_thread'' then
       (case get_prop args ''threadId'' of Inl e \<Rightarrow> (Inl e, w) | Inr threadId \<Rightarrow>
        (case getThread gmail threadId w of
           (Inl e, w') \<Rightarrow> (Inl e, w')
         | (Inr messages, w') \<Rightarrow>
             if length messages = 0
             then (Inr ''Thread not found or contains no messages.'', w')
             else (Inr (''Thread contains '' @ show_nat (length messages) @ '' message'' @
                        (if length messages \<noteq> 1 then ''s'' else []) @ '':'' @ nl @ nl @
                        join (nl @ nl)
                          (map (thread_summary rt (length messages)) (enumerate 0 messages))), w')))
     else (Inr (''Unknown tool: '' @ toolName), w))"

text \<open>
  \<^verbatim>\<open>executeGmailTool\<close>: the try/catch around the switch. Its own result is again a
  value or an exception, as of any function of the program.
\<close>

definition executeGmailTool ::
    "runtime \<Rightarrow> 'w gmail_module \<Rightarrow> string \<Rightarrow> json \<Rightarrow> 'w \<Rightarrow> (exn + tool_result) \<times> 'w" where
  "executeGmailTool rt gmail toolName args w =
     (case executeToolInternal rt gmail toolName args w of
        (Inr out, w') \<Rightarrow> (Inr \<lparr>success = True, output_text = out, error = None\<rparr>, w')
      | (Inl e, w') \<Rightarrow>
          let message = (case e of Error m \<Rightarrow> m | Thrown \<Rightarrow> ''Unknown error'')
          in (Inr \<lparr>success = False, output_text = ''Error: '' @ message, error = Some message\<rparr>, w'))"

section \<open>Messages, completions and configuration\<close>

record tool_call =
  call_id :: string
  fn_name :: string
  fn_arguments :: string

text \<open>
  \<^verbatim>\<open>ChatCompletionMessageParam\<close>: a message of the conversation, tagged by its role.
  A tool message carries its \<^verbatim>\<open>tool_call_id\<close> and its content.
\<close>

datatype message =
    System string
  | User string
  | Assistant "string option" "tool_call list option"
  | Tool string string

text \<open>The message of a completion choice, and the completion response.\<close>

record chat_message =
  content :: "string option"
  tool_calls :: "tool_call list option"

record completion =
  choices :: "chat_message list"
  usage_total_tokens :: "nat option"

record request =
  req_model :: string
  req_max_tokens :: nat
  req_temperature :: rat
  req_messages :: "message list"
  req_tools :: "string list"
  req_tool_choice :: string

text \<open>
  The configuration that \<^verbatim>\<open>run\<close> reads. The token limit and the history limit are whole
  numbers, the temperature a rational.
\<close>

record openai_config =
  model :: string
  maxTokens :: nat
  temperature :: rat
  systemPrompt :: string

record agent_config =
  agent_name :: string
  maxHistoryLength :: nat

record config =
  openai :: openai_config
  agent :: agent_config

record run_options =
  reset :: "bool option"
  opt_maxTokens :: "nat option"
  opt_temperature :: "rat option"

record run_result =
  response :: string
  toolCalls :: nat
  tokensUsed :: "nat option"

section \<open>The conversation store\<close>

text \<open>
  Arrays are objects: \<^verbatim>\<open>push\<close> changes an array in place, for every holder of a
  reference to it, while \<^verbatim>\<open>slice\<close> and an array literal make a new one. The store maps
  references to array contents; \<open>next_ref\<close> is the first unused reference. The
  module variable \<^verbatim>\<open>conversationState\<close> holds the state object, whose \<open>messages\<close> field
  is a reference.
\<close>

record conversation_state =
  messages :: nat
  createdAt :: date
  updatedAt :: date

record store =
  arrays :: "nat \<Rightarrow> message list"
  next_ref :: nat
  conversationState :: conversation_state

definition new_array :: "message list \<Rightarrow> store \<Rightarrow> nat \<times> store" where
  "new_array xs st =
     (next_ref st, st\<lparr>arrays := (arrays st)(next_ref st := xs), next_ref := Suc (next_ref st)\<rparr>)"

text \<open>\<^verbatim>\<open>array.push(...xs)\<close> through a reference.\<close>

definition array_push :: "nat \<Rightarrow> message list \<Rightarrow> store \<Rightarrow> store" where
  "array_push r xs st = st\<lparr>arrays := (arrays st)(r := arrays st r @ xs)\<rparr>"

text \<open>\<^verbatim>\<open>xs.slice(-k)\<close> for \<open>k \<ge> 0\<close>: the last \<open>k\<close> elements; \<^verbatim>\<open>slice(-0)\<close> is \<^verbatim>\<open>slice(0)\<close>, all of them.\<close>

definition slice_last :: "nat \<Rightarrow> 'a list \<Rightarrow> 'a list" where
  "slice_last k xs = (if k = 0 then xs else drop (length xs - k) xs)"

text \<open>The messages of the live conversation.\<close>

definition history :: "store \<Rightarrow> message list" where
  "history st = arrays st (messages (conversationState st))"

text \<open>\<^verbatim>\<open>conversationState.messages.push(...xs)\<close>.\<close>

definition push_messages :: "message list \<Rightarrow> store \<Rightarrow> store" where
  "push_messages xs st = array_push (messages (conversationState st)) xs st"

text \<open>\<^verbatim>\<open>conversationState.updatedAt = new Date()\<close>.\<close>

definition touch :: "date \<Rightarrow> store \<Rightarrow> store" where
  "touch now st = st\<lparr>conversationState := (conversationState st)\<lparr>updatedAt := now\<rparr>\<rparr>"

text \<open>The module's initial state: an empty conversation.\<close>

definition initial_store :: "date \<Rightarrow> store" where
  "initial_store now =
     \<lparr>arrays = (\<lambda>r. []), next_ref = 1,
      conversationState = \<lparr>messages = 0, createdAt = now, updatedAt = now\<rparr>\<rparr>"

definition resetConversation :: "date \<Rightarrow> store \<Rightarrow> store" where
  "resetConversation now st =
     (case new_array [] st of (r, st') \<Rightarrow>
        st'\<lparr>conversationState := \<lparr>messages = r, createdAt = now, updatedAt = now\<rparr>\<rparr>)"

definition getConversationLength :: "store \<Rightarrow> nat" where
  "getConversationLength st = length (arrays st (messages (conversationState st)))"

text \<open>
  \<^verbatim>\<open>getConversationState\<close> returns \<^verbatim>\<open>{ ...conversationState }\<close>: a new object with the
  fields of the live one, so its \<open>messages\<close> field is the same reference.
\<close>

definition getConversationState :: "store \<Rightarrow> conversation_state" where
  "getConversationState st =
     \<lparr>messages = messages (conversationState st),
      createdAt = createdAt (conversationState st),
      updatedAt = updatedAt (conversationState st)\<rparr>"

text \<open>
  The trim step of \<^verbatim>\<open>run\<close>, for \<open>maxTurns\<close> the configured
  \<^verbatim>\<open>maxHistoryLength\<close>: with \<^verbatim>\<open>maxHistory = maxHistoryLength * 2\<close>, a longer
  history is replaced by \<^verbatim>\<open>slice(-maxHistory)\<close> of it, a new array.
\<close>

definition trim_history :: "nat \<Rightarrow> store \<Rightarrow> store" where
  "trim_history maxTurns st =
     (let maxHistory = maxTurns * 2 in
      if length (history st) > maxHistory then
        (case new_array (slice_last maxHistory (history st)) st of (r, st') \<Rightarrow>
           st'\<lparr>conversationState := (conversationState st')\<lparr>messages := r\<rparr>\<rparr>)
      else st)"

section \<open>The agent loop\<close>

text \<open>
  What \<^verbatim>\<open>run\<close> reaches outside the module: the credentials and the configuration file,
  the completion endpoint, the mail service, the clock and the console.
\<close>

record 'w env =
  runtime :: runtime
  gmail :: "'w gmail_module"
  getOpenAIKey :: "'w \<Rightarrow> exn + string option"
  loadConfig :: "'w \<Rightarrow> exn + config"
  chat_completions_create :: "string \<Rightarrow> request \<Rightarrow> 'w \<Rightarrow> (exn + completion) \<times> 'w"
  new_Date :: "'w \<Rightarrow> date"
  console_log :: "string \<Rightarrow> 'w \<Rightarrow> 'w"

text \<open>\<^verbatim>\<open>createClient\<close>: the client is its API key; a missing or empty key throws.\<close>

definition createClient :: "'w env \<Rightarrow> 'w \<Rightarrow> exn + string" where
  "createClient env w =
     (case getOpenAIKey env w of
        Inl e \<Rightarrow> Inl e
      | Inr None \<Rightarrow> Inl (Error ''OpenAI API key not configured. Run: moltbot-mini setup'')
      | Inr (Some apiKey) \<Rightarrow>
          if apiKey = [] then Inl (Error ''OpenAI API key not configured. Run: moltbot-mini setup'')
          else Inr apiKey)"

definition getSystemPrompt :: "'w env \<Rightarrow> 'w \<Rightarrow> exn + string" where
  "getSystemPrompt env w =
     (case loadConfig env w of Inl e \<Rightarrow> Inl e | Inr config \<Rightarrow> Inr (systemPrompt (openai config)))"

text \<open>The parameters of a completion request, around its messages.\<close>

definition build_request :: "config \<Rightarrow> run_options \<Rightarrow> message list \<Rightarrow> request" where
  "build_request config options msgs =
     \<lparr>req_model = model (openai config),
      req_max_tokens =
        (case opt_maxTokens options of
           None \<Rightarrow> maxTokens (openai config)
         | Some n \<Rightarrow> if n = 0 then maxTokens (openai config) else n),
      req_temperature =
        (case opt_temperature options of None \<Rightarrow> temperature (openai config) | Some t \<Rightarrow> t),
      req_messages = msgs,
      req_tools = getToolNames,
      req_tool_choice = ''auto''\<rparr>"

text \<open>\<^verbatim>\<open>response.choices[0]?.message\<close>.\<close>

definition top_message :: "completion \<Rightarrow> chat_message option" where
  "top_message resp = (case choices resp of [] \<Rightarrow> None | c # cs \<Rightarrow> Some c)"

text \<open>
  The \<^verbatim>\<open>for\<close> loop over the tool calls of one assistant message. The arguments are
  parsed outside the dispatcher; the tool messages are collected in \<open>toolResults\<close>.
\<close>

fun execute_tool_calls ::
    "'w env \<Rightarrow> tool_call list \<Rightarrow> message list \<Rightarrow> nat \<Rightarrow> 'w \<Rightarrow> (exn + message list \<times> nat) \<times> 'w" where
  "execute_tool_calls env [] toolResults toolCallCount w = (Inr (toolResults, toolCallCount), w)"
| "execute_tool_calls env (toolCall # rest) toolResults toolCallCount w =
     (case JSON_parse (runtime env)
             (if fn_arguments toolCall = [] then ''{}'' else fn_arguments toolCall) of
        Inl e \<Rightarrow> (Inl e, w)
      | Inr args \<Rightarrow>
          let w1 = console_log env (''  [Tool: '' @ fn_name toolCall @ '']'') w
          in (case executeGmailTool (runtime env) (gmail env) (fn_name toolCall) args w1 of
                (Inl e, w2) \<Rightarrow> (Inl e, w2)
              | (Inr result, w2) \<Rightarrow>
                  execute_tool_calls env rest
                    (toolResults @ [Tool (call_id toolCall) (output_text result)])
                    (toolCallCount + 1) w2))"

text \<open>The end of \<^verbatim>\<open>run\<close>, after the tool loop: the final answer.\<close>

definition final_response :: "chat_message option \<Rightarrow> string" where
  "final_response assistantMessage =
     (case assistantMessage of
        None \<Rightarrow> ''I was unable to generate a response.''
      | Some m \<Rightarrow>
          (case content m of
             None \<Rightarrow> ''I was unable to generate a response.''
           | Some text \<Rightarrow> if text = [] then ''I was unable to generate a response.'' else text))"

definition finish ::
    "'w env \<Rightarrow> completion \<Rightarrow> chat_message option \<Rightarrow> nat \<Rightarrow> store \<Rightarrow> 'w
       \<Rightarrow> (exn + run_result) \<times> store \<times> 'w" where
  "finish env resp assistantMessage toolCallCount st w =
     (let finalResponse = final_response assistantMessage;
          st1 = push_messages [Assistant (Some finalResponse) None] st;
          st2 = touch (new_Date env w) st1
      in (Inr \<lparr>response = finalResponse, toolCalls = toolCallCount,
                tokensUsed = usage_total_tokens resp\<rparr>, st2, w))"

text \<open>The tool calls that keep the \<^verbatim>\<open>while\<close> loop going: a present, non-empty list.\<close>

definition requested_calls :: "chat_message option \<Rightarrow> tool_call list option" where
  "requested_calls assistantMessage =
     (case assistantMessage of
        None \<Rightarrow> None
      | Some m \<Rightarrow>
          (case tool_calls m of
             None \<Rightarrow> None
           | Some tcs \<Rightarrow> if length tcs > 0 then Some tcs else None))"

text \<open>
  The \<^verbatim>\<open>while\<close> loop of \<^verbatim>\<open>run\<close> and what follows it. Nothing bounds the number of
  rounds, so the loop may not return: that is the value \<open>None\<close>.
\<close>

partial_function (option) tool_loop ::
    "'w env \<Rightarrow> string \<Rightarrow> config \<Rightarrow> run_options \<Rightarrow> completion \<Rightarrow> chat_message option \<Rightarrow> nat
       \<Rightarrow> store \<Rightarrow> 'w \<Rightarrow> ((exn + run_result) \<times> store \<times> 'w) option" where
  "tool_loop env client config options resp assistantMessage toolCallCount st w =
     (case requested_calls assistantMessage of
        None \<Rightarrow> Some (finish env resp assistantMessage toolCallCount st w)
      | Some tcs \<Rightarrow>
          let st1 = push_messages
                      [Assistant (case assistantMessage of None \<Rightarrow> None | Some m \<Rightarrow> content m)
                         (Some tcs)] st
          in (case execute_tool_calls env tcs [] toolCallCount w of
                (Inl e, w1) \<Rightarrow> Some (Inl e, st1, w1)
              | (Inr (toolResults, count), w1) \<Rightarrow>
                  let st2 = push_messages toolResults st1
                  in (case getSystemPrompt env w1 of
                        Inl e \<Rightarrow> Some (Inl e, st2, w1)
                      | Inr prompt \<Rightarrow>
                          (case chat_completions_create env client
                                  (build_request config options (System prompt # history st2)) w1 of
                             (Inl e, w2) \<Rightarrow> Some (Inl e, st2, w2)
                           | (Inr resp', w2) \<Rightarrow>
                               tool_loop env client config options resp'
                                 (top_message resp') count st2 w2))))"

declare tool_loop.simps [code]

text \<open>
  The start of a turn, once the client and the configuration are there: the user message
  is pushed, the update time set, and the history trimmed.
\<close>

definition begin_turn :: "'w env \<Rightarrow> config \<Rightarrow> string \<Rightarrow> store \<Rightarrow> 'w \<Rightarrow> store" where
  "begin_turn env config userMessage st0 w =
     (let st1 = push_messages [User userMessage] st0;
          st2 = touch (new_Date env w) st1
      in trim_history (maxHistoryLength (agent config)) st2)"

text \<open>The first statement of \<^verbatim>\<open>run\<close>: \<^verbatim>\<open>if (options.reset) resetConversation()\<close>.\<close>

definition reset_on_request :: "'w env \<Rightarrow> run_options \<Rightarrow> store \<Rightarrow> 'w \<Rightarrow> store" where
  "reset_on_request env options st w =
     (if reset options = Some True then resetConversation (new_Date env w) st else st)"

text \<open>\<^verbatim>\<open>run\<close>: reset on request, the user message, the trim, the first request, the loop.\<close>

definition run ::
    "'w env \<Rightarrow> string \<Rightarrow> run_options \<Rightarrow> store \<Rightarrow> 'w \<Rightarrow> ((exn + run_result) \<times> store \<times> 'w) option" where
  "run env userMessage options st w =
     (let st0 = reset_on_request env options st w
      in (case createClient env w of
            Inl e \<Rightarrow> Some (Inl e, st0, w)
          | Inr client \<Rightarrow>
              (case loadConfig env w of
                 Inl e \<Rightarrow> Some (Inl e, st0, w)
               | Inr config \<Rightarrow>
                   let st3 = begin_turn env config userMessage st0 w
                   in (case getSystemPrompt env w of
                         Inl e \<Rightarrow> Some (Inl e, st3, w)
                       | Inr prompt \<Rightarrow>
                           (case chat_completions_create env client
                                   (build_request config options (System prompt # history st3)) w of
                              (Inl e, w1) \<Rightarrow> Some (Inl e, st3, w1)
                            | (Inr resp, w1) \<Rightarrow>
                                tool_loop env client config options resp
                                  (top_message resp) 0 st3 w1)))))"

text \<open>\<^verbatim>\<open>query\<close>: a single turn, \<^verbatim>\<open>run\<close> with \<^verbatim>\<open>reset: true\<close>.\<close>

definition query ::
    "'w env \<Rightarrow> string \<Rightarrow> run_options \<Rightarrow> store \<Rightarrow> 'w \<Rightarrow> ((exn + run_result) \<times> store \<times> 'w) option" where
  "query env userMessage options st w = run env userMessage (options\<lparr>reset := Some True\<rparr>) st w"

section \<open>The shape of what a turn appends\<close>

text \<open>
  One round of the loop appends the assistant message with its tool calls and then one
  tool message per call: the call's id with the text the dispatcher returned for it.
\<close>

definition tool_messages :: "tool_call list \<Rightarrow> string list \<Rightarrow> message list" where
  "tool_messages tcs outs = map (\<lambda>(tc, out). Tool (call_id tc) out) (zip tcs outs)"

type_synonym round = "string option \<times> tool_call list \<times> string list"

definition round_messages :: "round \<Rightarrow> message list" where
  "round_messages r = (case r of (c, tcs, outs) \<Rightarrow> Assistant c (Some tcs) # tool_messages tcs outs)"

definition round_ok :: "round \<Rightarrow> bool" where
  "round_ok r = (case r of (c, tcs, outs) \<Rightarrow> tcs \<noteq> [] \<and> length outs = length tcs)"

definition round_calls :: "round \<Rightarrow> nat" where
  "round_calls r = (case r of (c, tcs, outs) \<Rightarrow> length tcs)"

fun is_tool :: "message \<Rightarrow> bool" where
  "is_tool (Tool i c) = True"
| "is_tool m = False"

text \<open>
  What the loop has appended when it stops, started with \<open>cnt\<close> calls counted: complete
  rounds and then \<open>rest\<close>. A result ends with the final assistant message and counts
  the calls of all rounds; an exception leaves nothing more, or the assistant message of
  a round whose tool calls were not finished.
\<close>

definition appended_ok ::
    "nat \<Rightarrow> message list \<Rightarrow> exn + run_result \<Rightarrow> round list \<Rightarrow> message list \<Rightarrow> bool" where
  "appended_ok cnt app res rounds rest =
     (list_all round_ok rounds \<and> app = concat (map round_messages rounds) @ rest \<and>
      (case res of
         Inr r \<Rightarrow> rest = [Assistant (Some (response r)) None] \<and>
                  toolCalls r = cnt + sum_list (map round_calls rounds)
       | Inl e \<Rightarrow> rest = [] \<or> (\<exists>c tcs. rest = [Assistant c (Some tcs)] \<and> tcs \<noteq> [])))"

definition loop_post :: "store \<Rightarrow> nat \<Rightarrow> (exn + run_result) \<times> store \<times> 'w \<Rightarrow> bool" where
  "loop_post st cnt y =
     (case y of (res, st', w') \<Rightarrow>
        (\<exists>rounds rest. appended_ok cnt (drop (length (history st)) (history st')) res rounds rest) \<and>
        take (length (history st)) (history st') = history st)"

section \<open>A scripted environment\<close>

text \<open>
  A small outside world on which the definitions run: the completion endpoint answers
  from a script and records each request it receives (once the script is used up, it
  fails as an unreachable endpoint does), the inbox has a fixed unread count, the mail
  service can be down, and the configuration file holds a history limit.
\<close>

record demo_world =
  script :: "(exn + completion) list"
  sent :: "request list"
  max_history :: nat
  unread :: int
  mail_down :: bool
  clock :: date
  console :: "string list"

text \<open>
  The runtime of the scripted environment. Its parser agrees with \<^verbatim>\<open>JSON.parse\<close> on the
  two payloads the scripts use: \<^verbatim>\<open>{}\<close> is the empty object, and \<^verbatim>\<open>{\<close> is a syntax error.
\<close>

definition demo_runtime :: runtime where
  "demo_runtime =
     \<lparr>JSON_parse = (\<lambda>s. if s = ''{}'' then Inr (JObject [])
                        else Inl (Error ''Unexpected end of JSON input'')),
      ToNumber_other = (\<lambda>v. NaN),
      Number_toString = (\<lambda>r. show_int \<lfloor>r\<rfloor>),
      toLocaleDateString = show_int,
      toLocaleTimeString = show_int,
      toLocaleString = show_int\<rparr>"

definition demo_call :: "demo_world \<Rightarrow> 'a \<Rightarrow> (exn + 'a) \<times> demo_world" where
  "demo_call w x =
     (if mail_down w then (Inl (Error ''Gmail not authenticated. Run: moltbot-mini setup''), w)
      else (Inr x, w))"

definition demo_email :: email_message where
  "demo_email =
     \<lparr>email_id = ''m1'', email_threadId = ''t1'', email_from = ''ann@example.com'',
      email_to = [''bob@example.com''], email_cc = None, email_subject = ''Lunch'',
      email_body = ''Noon?'', email_bodyHtml = None, email_date = 0, email_labels = [''INBOX''],
      email_isUnread = True, email_snippet = ''Noon?''\<rparr>"

definition demo_gmail :: "demo_world gmail_module" where
  "demo_gmail =
     \<lparr>listMessages = (\<lambda>q n w.
        demo_call w \<lparr>result_messages = [], nextPageToken = None, totalEstimate = 0\<rparr>),
      getMessage = (\<lambda>i w. demo_call w demo_email),
      sendMessage = (\<lambda>d w. demo_call w \<lparr>sent_messageId = ''m1'', sent_threadId = ''t1''\<rparr>),
      archiveMessage = (\<lambda>i w. demo_call w ()),
      trashMessage = (\<lambda>i w. demo_call w ()),
      markAsRead = (\<lambda>i w. demo_call w ()),
      markAsUnread = (\<lambda>i w. demo_call w ()),
      getUnreadCount = (\<lambda>w. demo_call w (unread w)),
      getThread = (\<lambda>i w. demo_call w [])\<rparr>"

definition demo_config :: "nat \<Rightarrow> config" where
  "demo_config n =
     \<lparr>openai = \<lparr>model = ''gpt-4o'', maxTokens = 4096, temperature = 7 / 10,
                 systemPrompt = ''You are a helpful email assistant.''\<rparr>,
      agent = \<lparr>agent_name = ''Email Assistant'', maxHistoryLength = n\<rparr>\<rparr>"

definition demo_env :: "demo_world env" where
  "demo_env =
     \<lparr>runtime = demo_runtime,
      gmail = demo_gmail,
      getOpenAIKey = (\<lambda>w. Inr (Some ''sk-test'')),
      loadConfig = (\<lambda>w. Inr (demo_config (max_history w))),
      chat_completions_create = (\<lambda>key req w.
        case script w of
          [] \<Rightarrow> (Inl (Error ''Connection error.''), w\<lparr>sent := sent w @ [req]\<rparr>)
        | r # rs \<Rightarrow> (r, w\<lparr>script := rs, sent := sent w @ [req]\<rparr>)),
      new_Date = clock,
      console_log = (\<lambda>line w. w\<lparr>console := console w @ [line]\<rparr>)\<rparr>"

definition demo_world0 :: "(exn + completion) list \<Rightarrow> nat \<Rightarrow> demo_world" where
  "demo_world0 answers n =
     \<lparr>script = answers, sent = [], max_history = n, unread = 3, mail_down = False,
      clock = 1000, console = []\<rparr>"

text \<open>Completions of the script: a final text, and a request for the unread count.\<close>

definition says :: "string \<Rightarrow> exn + completion" where
  "says text =
     Inr \<lparr>choices = [\<lparr>content = Some text, tool_calls = None\<rparr>], usage_total_tokens = Some 42\<rparr>"

definition unread_call :: "string \<Rightarrow> string \<Rightarrow> tool_call" where
  "unread_call cid payload =
     \<lparr>call_id = cid, fn_name = ''gmail_get_unread_count'', fn_arguments = payload\<rparr>"

definition asking :: "tool_call list \<Rightarrow> completion" where
  "asking tcs =
     \<lparr>choices = [\<lparr>content = None, tool_calls = Some tcs\<rparr>], usage_total_tokens = Some 17\<rparr>"

definition asks_unread :: "string \<Rightarrow> string \<Rightarrow> exn + completion" where
  "asks_unread cid payload = Inr (asking [unread_call cid payload])"

text \<open>What an observer sees of a finished call: its outcome, and the history it left.\<close>

definition outcome :: "('a \<times> store \<times> 'w) option \<Rightarrow> 'a option" where
  "outcome x = (case x of None \<Rightarrow> None | Some (res, st', w') \<Rightarrow> Some res)"

definition final_history :: "('a \<times> store \<times> 'w) option \<Rightarrow> message list option" where
  "final_history x = (case x of None \<Rightarrow> None | Some (res, st', w') \<Rightarrow> Some (history st'))"

definition requests_sent :: "('a \<times> store \<times> demo_world) option \<Rightarrow> nat option" where
  "requests_sent x = (case x of None \<Rightarrow> None | Some (res, st', w') \<Rightarrow> Some (length (sent w')))"

text \<open>What a holder of the snapshot \<open>snap\<close> reads as its message list after a call.\<close>

definition snapshot_messages ::
    "conversation_state \<Rightarrow> ('a \<times> store \<times> 'w) option \<Rightarrow> message list option" where
  "snapshot_messages snap x =
     (case x of None \<Rightarrow> None | Some (res, st', w') \<Rightarrow> Some (arrays st' (messages snap)))"

text \<open>A second call of \<open>run\<close> on the store and the world that a first call left.\<close>

definition then_run ::
    "'w env \<Rightarrow> string \<Rightarrow> run_options \<Rightarrow> ((exn + run_result) \<times> store \<times> 'w) option
       \<Rightarrow> ((exn + run_result) \<times> store \<times> 'w) option" where
  "then_run env userMessage options x =
     (case x of None \<Rightarrow> None | Some (res, st', w') \<Rightarrow> run env userMessage options st' w')"

text \<open>The messages of the completion request sent last.\<close>

definition last_request ::
    "('a \<times> store \<times> demo_world) option \<Rightarrow> message list option" where
  "last_request x =
     (case x of
        None \<Rightarrow> None
      | Some (res, st', w') \<Rightarrow>
          (case rev (sent w') of [] \<Rightarrow> None | req # reqs \<Rightarrow> Some (req_messages req)))"

definition no_options :: run_options where
  "no_options = \<lparr>reset = None, opt_maxTokens = None, opt_temperature = None\<rparr>"

section \<open>Properties of the tool dispatcher\<close>

lemma unknown_internal:
  "toolName \<notin> set getToolNames \<Longrightarrow>
   executeToolInternal rt gm toolName args w = (Inr (''Unknown tool: '' @ toolName), w)"
  unfolding executeToolInternal_def getToolNames_def by auto

lemma unread_internal:
  "executeToolInternal rt gm ''gmail_get_unread_count'' args w =
     (case getUnreadCount gm w of
        (Inl e, w') \<Rightarrow> (Inl e, w')
      | (Inr count, w') \<Rightarrow>
          (Inr (''You have '' @ show_int count @ '' unread email'' @
                (if count \<noteq> 1 then ''s'' else []) @ '' in your inbox.''), w'))"
  unfolding executeToolInternal_def by simp

lemma show_int_3: "show_int 3 = ''3''"
  by (simp add: show_int_def show_nat.simps digit_def)

lemma get_prop_not_null:
  "args \<noteq> JNull \<Longrightarrow>
   get_prop args key = Inr (case args of JObject kvs \<Rightarrow> map_of (rev kvs) key | _ \<Rightarrow> None)"
  by (cases args) simp_all

lemma mail_fails_internal:
  assumes "(\<forall>q n. listMessages gm q n w = (Inl e, w')) \<and>
      (\<forall>v. getMessage gm v w = (Inl e, w')) \<and>
      (\<forall>d. sendMessage gm d w = (Inl e, w')) \<and>
      (\<forall>v. archiveMessage gm v w = (Inl e, w')) \<and>
      (\<forall>v. trashMessage gm v w = (Inl e, w')) \<and>
      (\<forall>v. markAsRead gm v w = (Inl e, w')) \<and>
      (\<forall>v. markAsUnread gm v w = (Inl e, w')) \<and>
      getUnreadCount gm w = (Inl e, w') \<and>
      (\<forall>v. getThread gm v w = (Inl e, w'))"
      and "args \<noteq> JNull" and "toolName \<in> set getToolNames"
  shows "executeToolInternal rt gm toolName args w = (Inl e, w')"
proof -
  note m = assms(1)
  note g = get_prop_not_null[OF assms(2)]
  from assms(3) have
    "toolName = ''gmail_list_messages'' \<or> toolName = ''gmail_read_message'' \<or>
     toolName = ''gmail_send_message'' \<or> toolName = ''gmail_archive_message'' \<or>
     toolName = ''gmail_trash_message'' \<or> toolName = ''gmail_mark_read'' \<or>
     toolName = ''gmail_mark_unread'' \<or> toolName = ''gmail_get_unread_count'' \<or>
     toolName = ''gmail_get_thread''"
    by (simp add: getToolNames_def)
  then show ?thesis
    by (elim disjE; simp add: executeToolInternal_def g Let_def m)
qed

lemma demo_unread:
  "getUnreadCount demo_gmail (demo_world0 [] 20) = (Inr 3, demo_world0 [] 20)"
  by (simp add: demo_gmail_def demo_call_def demo_world0_def)

text \<open>
  Claim C4, as the code has it. For a tool name that is none of the nine names of the
  switch, and any arguments, \<open>executeGmailTool\<close> raises nothing and returns the text
  \<open>Unknown tool: <name>\<close>; the default case returns that text normally, so the result
  carries \<open>success = True\<close> and no error, and the world is untouched.
\<close>

theorem unknown_tool_result:
  assumes "toolName \<notin> set getToolNames"
  shows "executeGmailTool rt gm toolName args w =
           (Inr \<lparr>success = True, output_text = ''Unknown tool: '' @ toolName, error = None\<rparr>, w)"
  using assms by (simp add: executeGmailTool_def unknown_internal)

theorem unknown_tool_result_witness:
  "''gmail_delete_everything'' \<notin> set getToolNames \<and>
   executeGmailTool demo_runtime demo_gmail ''gmail_delete_everything'' (JObject [])
       (demo_world0 [] 20) =
     (Inr \<lparr>success = True, output_text = ''Unknown tool: gmail_delete_everything'',
           error = None\<rparr>, demo_world0 [] 20)"
proof -
  have h: "''gmail_delete_everything'' \<notin> set getToolNames"
    by (simp add: getToolNames_def)
  from unknown_tool_result[OF h] h show ?thesis by simp
qed

text \<open>
  Claim C4 as stated fails: the result of an unknown tool name does not carry
  \<open>success = False\<close>.
\<close>

theorem unknown_tool_not_failure:
  "\<not> (\<forall>toolName args. toolName \<notin> set getToolNames \<longrightarrow>
        fst (executeGmailTool demo_runtime demo_gmail toolName args (demo_world0 [] 20)) =
          Inr \<lparr>success = False, output_text = ''Unknown tool: '' @ toolName, error = None\<rparr>)"
proof
  assume a: "\<forall>toolName args. toolName \<notin> set getToolNames \<longrightarrow>
        fst (executeGmailTool demo_runtime demo_gmail toolName args (demo_world0 [] 20)) =
          Inr \<lparr>success = False, output_text = ''Unknown tool: '' @ toolName, error = None\<rparr>"
  have h: "''gmail_delete_everything'' \<notin> set getToolNames"
    by (simp add: getToolNames_def)
  from a h have
    "fst (executeGmailTool demo_runtime demo_gmail ''gmail_delete_everything'' (JObject [])
            (demo_world0 [] 20)) =
       Inr \<lparr>success = False, output_text = ''Unknown tool: '' @ ''gmail_delete_everything'',
            error = None\<rparr>"
    by blast
  then show False
    by (simp add: executeGmailTool_def unknown_internal[OF h])
qed

text \<open>
  Claim C6. For every tool name, every argument value and every behaviour of the mail
  service, \<open>executeGmailTool\<close> returns a tool result and lets no exception escape. An
  exception with message \<open>m\<close> inside the switch becomes the result with
  \<open>success = False\<close>, output \<open>Error: m\<close> and error \<open>m\<close> (a thrown value that is no Error
  reads \<open>Unknown error\<close>), and a text returned by the switch becomes a successful result.
  When every operation of the mail service throws \<open>e\<close>, each of the nine tools, called
  with arguments other than \<^verbatim>\<open>null\<close>, meets that exception inside the switch.
\<close>

theorem dispatcher_total:
  "(\<exists>r w'. executeGmailTool rt gm toolName args w = (Inr r, w')) \<and>
   (\<forall>m w'. executeToolInternal rt gm toolName args w = (Inl (Error m), w') \<longrightarrow>
      executeGmailTool rt gm toolName args w =
        (Inr \<lparr>success = False, output_text = ''Error: '' @ m, error = Some m\<rparr>, w')) \<and>
   (\<forall>w'. executeToolInternal rt gm toolName args w = (Inl Thrown, w') \<longrightarrow>
      executeGmailTool rt gm toolName args w =
        (Inr \<lparr>success = False, output_text = ''Error: Unknown error'',
              error = Some ''Unknown error''\<rparr>, w')) \<and>
   (\<forall>out w'. executeToolInternal rt gm toolName args w = (Inr out, w') \<longrightarrow>
      executeGmailTool rt gm toolName args w =
        (Inr \<lparr>success = True, output_text = out, error = None\<rparr>, w')) \<and>
   (\<forall>e w'.
      (\<forall>q n. listMessages gm q n w = (Inl e, w')) \<and>
      (\<forall>v. getMessage gm v w = (Inl e, w')) \<and>
      (\<forall>d. sendMessage gm d w = (Inl e, w')) \<and>
      (\<forall>v. archiveMessage gm v w = (Inl e, w')) \<and>
      (\<forall>v. trashMessage gm v w = (Inl e, w')) \<and>
      (\<forall>v. markAsRead gm v w = (Inl e, w')) \<and>
      (\<forall>v. markAsUnread gm v w = (Inl e, w')) \<and>
      getUnreadCount gm w = (Inl e, w') \<and>
      (\<forall>v. getThread gm v w = (Inl e, w')) \<and>
      args \<noteq> JNull \<and> toolName \<in> set getToolNames \<longrightarrow>
      executeToolInternal rt gm toolName args w = (Inl e, w'))"
proof (intro conjI allI impI)
  show "\<exists>r w'. executeGmailTool rt gm toolName args w = (Inr r, w')"
    by (auto simp: executeGmailTool_def Let_def split: prod.splits sum.splits)
next
  fix m w'
  assume "executeToolInternal rt gm toolName args w = (Inl (Error m), w')"
  then show "executeGmailTool rt gm toolName args w =
        (Inr \<lparr>success = False, output_text = ''Error: '' @ m, error = Some m\<rparr>, w')"
    by (simp add: executeGmailTool_def)
next
  fix w'
  assume "executeToolInternal rt gm toolName args w = (Inl Thrown, w')"
  then show "executeGmailTool rt gm toolName args w =
        (Inr \<lparr>success = False, output_text = ''Error: Unknown error'',
              error = Some ''Unknown error''\<rparr>, w')"
    by (simp add: executeGmailTool_def Let_def)
next
  fix out w'
  assume "executeToolInternal rt gm toolName args w = (Inr out, w')"
  then show "executeGmailTool rt gm toolName args w =
        (Inr \<lparr>success = True, output_text = out, error = None\<rparr>, w')"
    by (simp add: executeGmailTool_def)
next
  fix e w'
  assume a: "(\<forall>q n. listMessages gm q n w = (Inl e, w')) \<and>
      (\<forall>v. getMessage gm v w = (Inl e, w')) \<and>
      (\<forall>d. sendMessage gm d w = (Inl e, w')) \<and>
      (\<forall>v. archiveMessage gm v w = (Inl e, w')) \<and>
      (\<forall>v. trashMessage gm v w = (Inl e, w')) \<and>
      (\<forall>v. markAsRead gm v w = (Inl e, w')) \<and>
      (\<forall>v. markAsUnread gm v w = (Inl e, w')) \<and>
      getUnreadCount gm w = (Inl e, w') \<and>
      (\<forall>v. getThread gm v w = (Inl e, w')) \<and>
      args \<noteq> JNull \<and> toolName \<in> set getToolNames"
  show "executeToolInternal rt gm toolName args w = (Inl e, w')"
    by (rule mail_fails_internal) (use a in simp_all)
qed

theorem dispatcher_total_witness:
  "executeGmailTool demo_runtime demo_gmail ''gmail_read_message'' (JObject [])
       ((demo_world0 [] 20)\<lparr>mail_down := True\<rparr>) =
     (Inr \<lparr>success = False,
           output_text = ''Error: Gmail not authenticated. Run: moltbot-mini setup'',
           error = Some ''Gmail not authenticated. Run: moltbot-mini setup''\<rparr>,
      (demo_world0 [] 20)\<lparr>mail_down := True\<rparr>) \<and>
   executeGmailTool demo_runtime (demo_gmail\<lparr>getUnreadCount := (\<lambda>w. (Inl Thrown, w))\<rparr>)
       ''gmail_get_unread_count'' JNull (demo_world0 [] 20) =
     (Inr \<lparr>success = False, output_text = ''Error: Unknown error'',
           error = Some ''Unknown error''\<rparr>, demo_world0 [] 20) \<and>
   executeGmailTool demo_runtime demo_gmail ''gmail_get_unread_count'' JNull (demo_world0 [] 20) =
     (Inr \<lparr>success = True, output_text = ''You have 3 unread emails in your inbox.'',
           error = None\<rparr>, demo_world0 [] 20)"
proof -
  let ?w = "(demo_world0 [] 20)\<lparr>mail_down := True\<rparr>"
  let ?e = "Error ''Gmail not authenticated. Run: moltbot-mini setup''"
  let ?thrower = "demo_gmail\<lparr>getUnreadCount := (\<lambda>w. (Inl Thrown, w))\<rparr>"
  have down:
    "(\<forall>q n. listMessages demo_gmail q n ?w = (Inl ?e, ?w)) \<and>
     (\<forall>v. getMessage demo_gmail v ?w = (Inl ?e, ?w)) \<and>
     (\<forall>d. sendMessage demo_gmail d ?w = (Inl ?e, ?w)) \<and>
     (\<forall>v. archiveMessage demo_gmail v ?w = (Inl ?e, ?w)) \<and>
     (\<forall>v. trashMessage demo_gmail v ?w = (Inl ?e, ?w)) \<and>
     (\<forall>v. markAsRead demo_gmail v ?w = (Inl ?e, ?w)) \<and>
     (\<forall>v. markAsUnread demo_gmail v ?w = (Inl ?e, ?w)) \<and>
     getUnreadCount demo_gmail ?w = (Inl ?e, ?w) \<and>
     (\<forall>v. getThread demo_gmail v ?w = (Inl ?e, ?w))"
    by (simp add: demo_gmail_def demo_call_def demo_world0_def)
  have name: "''gmail_read_message'' \<in> set getToolNames"
    by (simp add: getToolNames_def)
  note t = dispatcher_total[of demo_runtime demo_gmail "''gmail_read_message''" "JObject []" ?w]
  have i: "executeToolInternal demo_runtime demo_gmail ''gmail_read_message'' (JObject []) ?w =
             (Inl ?e, ?w)"
    by (rule t[THEN conjunct2, THEN conjunct2, THEN conjunct2, THEN conjunct2, rule_format])
       (simp add: down name)
  from t[THEN conjunct2, THEN conjunct1, rule_format, OF i]
  have 1: "executeGmailTool demo_runtime demo_gmail ''gmail_read_message'' (JObject []) ?w =
       (Inr \<lparr>success = False,
             output_text = ''Error: Gmail not authenticated. Run: moltbot-mini setup'',
             error = Some ''Gmail not authenticated. Run: moltbot-mini setup''\<rparr>, ?w)"
    by simp
  have thrown: "executeToolInternal demo_runtime ?thrower ''gmail_get_unread_count'' JNull
                  (demo_world0 [] 20) = (Inl Thrown, demo_world0 [] 20)"
    by (simp add: unread_internal)
  note 2 = dispatcher_total[of demo_runtime ?thrower "''gmail_get_unread_count''" JNull
      "demo_world0 [] 20", THEN conjunct2, THEN conjunct2, THEN conjunct1, rule_format, OF thrown]
  have returned: "executeToolInternal demo_runtime demo_gmail ''gmail_get_unread_count'' JNull
                  (demo_world0 [] 20) =
                    (Inr ''You have 3 unread emails in your inbox.'', demo_world0 [] 20)"
    by (simp add: unread_internal demo_unread show_int_3)
  note 3 = dispatcher_total[of demo_runtime demo_gmail "''gmail_get_unread_count''" JNull
      "demo_world0 [] 20", THEN conjunct2, THEN conjunct2, THEN conjunct2, THEN conjunct1,
      rule_format, OF returned]
  from 1 2 3 show ?thesis by (intro conjI)
qed

text \<open>
  Claim C8. When the mail service reports the unread count \<open>n\<close>, the tool
  \<open>gmail_get_unread_count\<close> returns a successful result whose output is
  \<open>You have n unread email(s) in your inbox.\<close>, with the plural \<open>s\<close> exactly when
  \<open>n \<noteq> 1\<close>; for \<open>n = 3\<close> it is \<open>You have 3 unread emails in your inbox.\<close>
\<close>

theorem unread_count_output:
  assumes "getUnreadCount gm w = (Inr n, w')"
  shows "executeGmailTool rt gm ''gmail_get_unread_count'' args w =
           (Inr \<lparr>success = True,
                 output_text = ''You have '' @ show_int n @ '' unread email'' @
                               (if n \<noteq> 1 then ''s'' else []) @ '' in your inbox.'',
                 error = None\<rparr>, w') \<and>
         (n = 3 \<longrightarrow>
            executeGmailTool rt gm ''gmail_get_unread_count'' args w =
              (Inr \<lparr>success = True, output_text = ''You have 3 unread emails in your inbox.'',
                    error = None\<rparr>, w'))"
  using assms by (simp add: executeGmailTool_def unread_internal show_int_3)

theorem unread_count_output_witness:
  "getUnreadCount demo_gmail (demo_world0 [] 20) = (Inr 3, demo_world0 [] 20) \<and>
   executeGmailTool demo_runtime demo_gmail ''gmail_get_unread_count'' (JObject [])
       (demo_world0 [] 20) =
     (Inr \<lparr>success = True, output_text = ''You have 3 unread emails in your inbox.'',
           error = None\<rparr>, demo_world0 [] 20)"
  using unread_count_output[OF demo_unread, of demo_runtime "JObject []", THEN conjunct2]
    demo_unread
  by simp

section \<open>Properties of the conversation store\<close>

lemma history_push [simp]: "history (push_messages xs st) = history st @ xs"
  by (simp add: history_def push_messages_def array_push_def)

lemma history_touch [simp]: "history (touch d st) = history st"
  by (simp add: history_def touch_def)

lemma history_trim:
  "history (trim_history n st) =
     (if length (history st) > n * 2 then slice_last (n * 2) (history st) else history st)"
  by (simp add: trim_history_def Let_def history_def new_array_def)

lemma history_reset [simp]: "history (resetConversation d st) = []"
  by (simp add: resetConversation_def history_def new_array_def)

lemma history_begin_turn:
  "history (begin_turn env config u st w) =
     (let h = history st @ [User u]; k = maxHistoryLength (agent config) * 2
      in if length h > k then slice_last k h else h)"
  by (simp add: begin_turn_def Let_def history_trim)

text \<open>
  Claim C3. For \<open>maxTurns \<ge> 1\<close>, the trim step leaves a history of at most
  \<open>2 * maxTurns\<close> messages as it is, and otherwise keeps exactly its last
  \<open>2 * maxTurns\<close> messages in their order; so afterwards the history has at most
  \<open>2 * maxTurns\<close> messages and is a suffix of the history before.
\<close>

theorem trim_keeps_most_recent:
  assumes "1 \<le> maxTurns"
  shows "history (trim_history maxTurns st) =
           (if length (history st) \<le> 2 * maxTurns then history st
            else drop (length (history st) - 2 * maxTurns) (history st)) \<and>
         (2 * maxTurns < length (history st) \<longrightarrow>
            length (history (trim_history maxTurns st)) = 2 * maxTurns) \<and>
         length (history (trim_history maxTurns st)) \<le> 2 * maxTurns \<and>
         suffix (history (trim_history maxTurns st)) (history st)"
  using assms by (auto simp: history_trim slice_last_def mult.commute suffix_drop)

theorem trim_keeps_most_recent_witness:
  "(1::nat) \<le> 1 \<and>
   history (trim_history 1 (push_messages [User ''a'', User ''b'', User ''c''] (initial_store 0))) =
     [User ''b'', User ''c'']"
  using trim_keeps_most_recent[of 1 "push_messages [User ''a'', User ''b'', User ''c''] (initial_store 0)"]
  by (simp add: initial_store_def history_def push_messages_def array_push_def)

section \<open>Properties of the agent loop\<close>

lemma execute_tool_calls_shape:
  "execute_tool_calls env tcs acc cnt w = (Inr (res, cnt'), w') \<Longrightarrow>
   \<exists>outs. length outs = length tcs \<and> res = acc @ tool_messages tcs outs \<and> cnt' = cnt + length tcs"
proof (induction tcs arbitrary: acc cnt w)
  case Nil
  then show ?case by (simp add: tool_messages_def)
next
  case (Cons tc tcs)
  from Cons.prems obtain result :: tool_result and w2 where
    step: "execute_tool_calls env tcs (acc @ [Tool (call_id tc) (output_text result)]) (Suc cnt) w2
           = (Inr (res, cnt'), w')"
    by (auto simp: Let_def split: sum.splits prod.splits)
  from Cons.IH[OF step] obtain outs where
    o: "length outs = length tcs"
       "res = (acc @ [Tool (call_id tc) (output_text result)]) @ tool_messages tcs outs"
       "cnt' = Suc cnt + length tcs"
    by auto
  have "length (output_text result # outs) = length (tc # tcs)" using o by simp
  moreover have "res = acc @ tool_messages (tc # tcs) (output_text result # outs)"
    using o by (simp add: tool_messages_def)
  moreover have "cnt' = cnt + length (tc # tcs)" using o by simp
  ultimately show ?case by blast
qed

lemma executeGmailTool_returns:
  "\<exists>r w'. executeGmailTool rt gm toolName args w = (Inr r, w')"
  by (auto simp: executeGmailTool_def Let_def split: prod.splits sum.splits)

lemma execute_tool_calls_returns:
  assumes "\<forall>tc\<in>set tcs. \<exists>args.
             JSON_parse (runtime env)
               (if fn_arguments tc = [] then ''{}'' else fn_arguments tc) = Inr args"
  shows "\<exists>outs w1. length outs = length tcs \<and>
           execute_tool_calls env tcs acc cnt w =
             (Inr (acc @ tool_messages tcs outs, cnt + length tcs), w1)"
  using assms
proof (induction tcs arbitrary: acc cnt w)
  case Nil
  then show ?case by (simp add: tool_messages_def)
next
  case (Cons tc tcs)
  from Cons.prems obtain args where
    p: "JSON_parse (runtime env)
          (if fn_arguments tc = [] then ''{}'' else fn_arguments tc) = Inr args"
    by auto
  let ?w1 = "console_log env (''  [Tool: '' @ fn_name tc @ '']'') w"
  from executeGmailTool_returns[of "runtime env" "gmail env" "fn_name tc" args ?w1]
  obtain result :: tool_result and w2 where
    d: "executeGmailTool (runtime env) (gmail env) (fn_name tc) args ?w1 = (Inr result, w2)"
    by auto
  from Cons.prems have "\<forall>tc\<in>set tcs. \<exists>args.
             JSON_parse (runtime env)
               (if fn_arguments tc = [] then ''{}'' else fn_arguments tc) = Inr args"
    by simp
  from Cons.IH[OF this, of "acc @ [Tool (call_id tc) (output_text result)]" "Suc cnt" w2]
  obtain outs w3 where
    o: "length outs = length tcs"
       "execute_tool_calls env tcs (acc @ [Tool (call_id tc) (output_text result)]) (Suc cnt) w2 =
          (Inr ((acc @ [Tool (call_id tc) (output_text result)]) @ tool_messages tcs outs,
                Suc cnt + length tcs), w3)"
    by blast
  have "length (output_text result # outs) = length (tc # tcs)" using o(1) by simp
  moreover have "execute_tool_calls env (tc # tcs) acc cnt w =
      (Inr (acc @ tool_messages (tc # tcs) (output_text result # outs), cnt + length (tc # tcs)), w3)"
    using p d o(2) by (simp add: Let_def tool_messages_def)
  ultimately show ?case by blast
qed

lemma requested_calls_nonempty: "requested_calls am = Some tcs \<Longrightarrow> tcs \<noteq> []"
  by (auto simp: requested_calls_def split: option.splits if_splits)

lemma appended_ok_round:
  assumes "round_ok r" and "appended_ok (cnt + round_calls r) app res rounds rest"
  shows "appended_ok cnt (round_messages r @ app) res (r # rounds) rest"
  using assms by (cases res) (auto simp: appended_ok_def)

lemma loop_post_extend:
  assumes hist: "history st2 = history st @ xs"
      and post: "take (length (history st2)) (history st') = history st2"
  shows "take (length (history st)) (history st') = history st"
    and "drop (length (history st)) (history st') = xs @ drop (length (history st2)) (history st')"
proof -
  have "history st' = history st2 @ drop (length (history st2)) (history st')"
    using post by (metis append_take_drop_id)
  then have eq: "history st' = history st @ xs @ drop (length (history st2)) (history st')"
    using hist by simp
  show "take (length (history st)) (history st') = history st"
    by (subst eq) simp
  show "drop (length (history st)) (history st') = xs @ drop (length (history st2)) (history st')"
    by (subst eq) simp
qed

lemma loop_post_step:
  assumes ok: "round_ok r"
      and hist: "history st2 = history st @ round_messages r"
      and post: "loop_post st2 (cnt + round_calls r) y"
  shows "loop_post st cnt y"
proof -
  obtain res st' w' where y: "y = (res, st', w')" by (cases y) auto
  from post y obtain rounds rest where
    a: "appended_ok (cnt + round_calls r) (drop (length (history st2)) (history st')) res rounds rest"
    and t: "take (length (history st2)) (history st') = history st2"
    by (auto simp: loop_post_def)
  from appended_ok_round[OF ok a] loop_post_extend[OF hist t]
  show ?thesis unfolding y loop_post_def by auto
qed

lemma loop_post_stop:
  assumes "history st' = history st @ concat (map round_messages rounds) @ rest"
      and "list_all round_ok rounds"
      and "rest = [] \<or> (\<exists>c tcs. rest = [Assistant c (Some tcs)] \<and> tcs \<noteq> [])"
  shows "loop_post st cnt (Inl e, st', w')"
  using assms unfolding loop_post_def appended_ok_def by auto

lemma tool_loop_shape:
  assumes h: "tool_loop env client config options resp am cnt st w = Some y"
  shows "loop_post st cnt y"
proof (rule tool_loop.raw_induct[OF _ h, where P = "\<lambda>env client config options resp am cnt st w y. loop_post st cnt y"])
  fix f :: "'a env \<Rightarrow> string \<Rightarrow> config \<Rightarrow> run_options \<Rightarrow> completion \<Rightarrow> chat_message option \<Rightarrow> nat
       \<Rightarrow> store \<Rightarrow> 'a \<Rightarrow> ((exn + run_result) \<times> store \<times> 'a) option"
  fix env client config options resp am cnt st w y
  assume IH: "\<And>env client config options resp am cnt st w y.
        f env client config options resp am cnt st w = Some y \<Longrightarrow> loop_post st cnt y"
  assume body: "(case requested_calls am of
        None \<Rightarrow> Some (finish env resp am cnt st w)
      | Some tcs \<Rightarrow>
          let st1 = push_messages
                      [Assistant (case am of None \<Rightarrow> None | Some m \<Rightarrow> content m)
                         (Some tcs)] st
          in (case execute_tool_calls env tcs [] cnt w of
                (Inl e, w1) \<Rightarrow> Some (Inl e, st1, w1)
              | (Inr (toolResults, count), w1) \<Rightarrow>
                  let st2 = push_messages toolResults st1
                  in (case getSystemPrompt env w1 of
                        Inl e \<Rightarrow> Some (Inl e, st2, w1)
                      | Inr prompt \<Rightarrow>
                          (case chat_completions_create env client
                                  (build_request config options (System prompt # history st2)) w1 of
                             (Inl e, w2) \<Rightarrow> Some (Inl e, st2, w2)
                           | (Inr resp', w2) \<Rightarrow>
                               f env client config options resp'
                                 (top_message resp') count st2 w2)))) = Some y"
  show "loop_post st cnt y"
  proof (cases "requested_calls am")
    case None
    with body have y: "y = finish env resp am cnt st w" by simp
    have "appended_ok cnt [Assistant (Some (final_response am)) None]
            (Inr \<lparr>response = final_response am, toolCalls = cnt,
                tokensUsed = usage_total_tokens resp\<rparr>) [] [Assistant (Some (final_response am)) None]"
      by (simp add: appended_ok_def)
    then show ?thesis
      unfolding y loop_post_def finish_def Let_def by (simp; blast)
  next
    case (Some tcs)
    define c where "c = (case am of None \<Rightarrow> None | Some m \<Rightarrow> content m)"
    define st1 where "st1 = push_messages [Assistant c (Some tcs)] st"
    have ne: "tcs \<noteq> []" using Some by (rule requested_calls_nonempty)
    have h1: "history st1 = history st @ [Assistant c (Some tcs)]" by (simp add: st1_def)
    obtain r1 w1 where ex: "execute_tool_calls env tcs [] cnt w = (r1, w1)" by (cases "execute_tool_calls env tcs [] cnt w") auto
    show ?thesis
    proof (cases r1)
      case (Inl e)
      with body Some ex have y: "y = (Inl e, st1, w1)" by (simp add: Let_def st1_def c_def)
      show ?thesis unfolding y
        by (rule loop_post_stop[where rounds = "[]" and rest = "[Assistant c (Some tcs)]"]) (simp_all add: h1 ne)
    next
      case (Inr p)
      obtain toolResults count where p: "p = (toolResults, count)" by (cases p) auto
      from execute_tool_calls_shape[OF ex[unfolded Inr p]] obtain outs where
        outs: "length outs = length tcs" "toolResults = tool_messages tcs outs" "count = cnt + length tcs"
        by auto
      define st2 where "st2 = push_messages toolResults st1"
      define r where "r = (c, tcs, outs)"
      have ok: "round_ok r" by (simp add: r_def round_ok_def ne outs)
      have h2: "history st2 = history st @ round_messages r"
        by (simp add: st2_def h1 r_def round_messages_def outs)
      have cnt: "count = cnt + round_calls r" by (simp add: r_def round_calls_def outs)
      have stop: "loop_post st cnt (Inl e, st2, w')" for e and w' :: 'a
        by (rule loop_post_stop[where rounds = "[r]" and rest = "[]"]) (simp_all add: h2 ok)
      from body Some ex Inr p have body2:
        "(case getSystemPrompt env w1 of
            Inl e \<Rightarrow> Some (Inl e, st2, w1)
          | Inr prompt \<Rightarrow>
              (case chat_completions_create env client
                      (build_request config options (System prompt # history st2)) w1 of
                 (Inl e, w2) \<Rightarrow> Some (Inl e, st2, w2)
               | (Inr resp', w2) \<Rightarrow>
                   f env client config options resp' (top_message resp') count st2 w2)) = Some y"
        unfolding st1_def st2_def c_def by (simp add: Let_def)
      show ?thesis
      proof (cases "getSystemPrompt env w1")
        case (Inl e)
        with body2 show ?thesis using stop by auto
      next
        case prompt: (Inr prompt)
        obtain r2 w2 where cr: "chat_completions_create env client
                              (build_request config options (System prompt # history st2)) w1 = (r2, w2)"
          by (cases "chat_completions_create env client
                              (build_request config options (System prompt # history st2)) w1") auto
        show ?thesis
        proof (cases r2)
          case (Inl e)
          with body2 prompt cr show ?thesis using stop by auto
        next
          case (Inr resp')
          with body2 prompt cr have "f env client config options resp' (top_message resp') count st2 w2 = Some y"
            by simp
          from IH[OF this] have "loop_post st2 (cnt + round_calls r) y" by (simp add: cnt)
          from loop_post_step[OF ok h2 this] show ?thesis .
        qed
      qed
    qed
  qed
qed

lemma tool_loop_appends:
  assumes "tool_loop env client config options resp am cnt st w = Some (res, st', w')"
  obtains rounds rest where "list_all round_ok rounds"
    and "history st' = history st @ concat (map round_messages rounds) @ rest"
    and "case res of
           Inr r \<Rightarrow> rest = [Assistant (Some (response r)) None] \<and>
                    toolCalls r = cnt + sum_list (map round_calls rounds)
         | Inl e \<Rightarrow> rest = [] \<or> (\<exists>c tcs. rest = [Assistant c (Some tcs)] \<and> tcs \<noteq> [])"
proof -
  from tool_loop_shape[OF assms] obtain rounds rest where
    a: "appended_ok cnt (drop (length (history st)) (history st')) res rounds rest"
    and t: "take (length (history st)) (history st') = history st"
    by (auto simp: loop_post_def)
  have h: "history st' = history st @ drop (length (history st)) (history st')"
    using t by (metis append_take_drop_id)
  from a have 1: "list_all round_ok rounds"
    and 2: "drop (length (history st)) (history st') = concat (map round_messages rounds) @ rest"
    and 3: "case res of
           Inr r \<Rightarrow> rest = [Assistant (Some (response r)) None] \<and>
                    toolCalls r = cnt + sum_list (map round_calls rounds)
         | Inl e \<Rightarrow> rest = [] \<or> (\<exists>c tcs. rest = [Assistant c (Some tcs)] \<and> tcs \<noteq> [])"
    unfolding appended_ok_def by simp_all
  from h 2 have "history st' = history st @ concat (map round_messages rounds) @ rest" by simp
  from 1 this 3 show thesis by (rule that)
qed

lemma tool_loop_result:
  assumes "tool_loop env client config options resp am cnt st w = Some (Inr r, st', w')"
  shows "\<exists>rounds. list_all round_ok rounds \<and>
           history st' = history st @ concat (map round_messages rounds) @
                         [Assistant (Some (response r)) None] \<and>
           toolCalls r = cnt + sum_list (map round_calls rounds)"
proof -
  from assms obtain rounds rest where
    1: "list_all round_ok rounds"
    and 2: "history st' = history st @ concat (map round_messages rounds) @ rest"
    and 3: "rest = [Assistant (Some (response r)) None] \<and>
            toolCalls r = cnt + sum_list (map round_calls rounds)"
    by (rule tool_loop_appends) simp
  from 1 2 3 show ?thesis by blast
qed

lemma tool_loop_error:
  assumes "tool_loop env client config options resp am cnt st w = Some (Inl e, st', w')"
  shows "\<exists>rounds rest. list_all round_ok rounds \<and>
           history st' = history st @ concat (map round_messages rounds) @ rest \<and>
           (rest = [] \<or> (\<exists>c tcs. rest = [Assistant c (Some tcs)] \<and> tcs \<noteq> []))"
proof -
  from assms obtain rounds rest where
    1: "list_all round_ok rounds"
    and 2: "history st' = history st @ concat (map round_messages rounds) @ rest"
    and 3: "rest = [] \<or> (\<exists>c tcs. rest = [Assistant c (Some tcs)] \<and> tcs \<noteq> [])"
    by (rule tool_loop_appends) simp
  from 1 2 3 show ?thesis by blast
qed

lemma tools_in_round:
  "round_ok r \<Longrightarrow> length (filter is_tool (round_messages r)) = round_calls r"
  by (cases r) (simp add: round_ok_def round_messages_def round_calls_def tool_messages_def
      filter_map comp_def case_prod_unfold)

lemma tools_in_rounds:
  "list_all round_ok rounds \<Longrightarrow>
   length (filter is_tool (concat (map round_messages rounds))) = sum_list (map round_calls rounds)"
  by (induction rounds) (simp_all add: tools_in_round)

lemma tool_loop_round:
  assumes "requested_calls am = Some tcs"
      and "execute_tool_calls env tcs [] cnt w = (Inr (toolResults, count), w1)"
  shows "tool_loop env client config options resp am cnt st w =
           (let st2 = push_messages toolResults
                        (push_messages
                           [Assistant (case am of None \<Rightarrow> None | Some m \<Rightarrow> content m) (Some tcs)] st)
            in case getSystemPrompt env w1 of
                 Inl e \<Rightarrow> Some (Inl e, st2, w1)
               | Inr prompt \<Rightarrow>
                   (case chat_completions_create env client
                           (build_request config options (System prompt # history st2)) w1 of
                      (Inl e, w2) \<Rightarrow> Some (Inl e, st2, w2)
                    | (Inr resp', w2) \<Rightarrow>
                        tool_loop env client config options resp' (top_message resp') count st2 w2))"
  by (subst tool_loop.simps) (simp add: assms Let_def)

lemma tool_loop_crash:
  assumes "requested_calls am = Some tcs"
      and "execute_tool_calls env tcs [] cnt w = (Inl e, w1)"
  shows "tool_loop env client config options resp am cnt st w =
           Some (Inl e,
                 push_messages
                   [Assistant (case am of None \<Rightarrow> None | Some m \<Rightarrow> content m) (Some tcs)] st, w1)"
  by (subst tool_loop.simps) (simp add: assms Let_def)

lemma tool_loop_exit:
  assumes "requested_calls am = None"
  shows "tool_loop env client config options resp am cnt st w = Some (finish env resp am cnt st w)"
  by (subst tool_loop.simps) (simp add: assms)

lemma run_unfold:
  assumes "createClient env w = Inr client" and "loadConfig env w = Inr config"
  shows "run env u options st w =
           (let st3 = begin_turn env config u (reset_on_request env options st w) w
            in case chat_completions_create env client
                      (build_request config options
                         (System (systemPrompt (openai config)) # history st3)) w of
                 (Inl e, w1) \<Rightarrow> Some (Inl e, st3, w1)
               | (Inr resp, w1) \<Rightarrow>
                   tool_loop env client config options resp (top_message resp) 0 st3 w1)"
  by (simp add: run_def assms getSystemPrompt_def Let_def)


lemma run_result:
  assumes "run env u options st w = Some (Inr r, st', w')"
      and "createClient env w = Inr client" and "loadConfig env w = Inr config"
  shows "\<exists>rounds. list_all round_ok rounds \<and>
           history st' = history (begin_turn env config u (reset_on_request env options st w) w) @
                         concat (map round_messages rounds) @
                         [Assistant (Some (response r)) None] \<and>
           toolCalls r = sum_list (map round_calls rounds)"
proof -
  define st3 where "st3 = begin_turn env config u (reset_on_request env options st w) w"
  obtain r1 w1 where cr: "chat_completions_create env client
                      (build_request config options
                         (System (systemPrompt (openai config)) # history st3)) w = (r1, w1)"
    by (cases "chat_completions_create env client
                      (build_request config options
                         (System (systemPrompt (openai config)) # history st3)) w") auto
  show ?thesis
  proof (cases r1)
    case (Inl e)
    with assms(1) cr show ?thesis
      by (simp add: run_unfold[OF assms(2,3)] Let_def st3_def[symmetric])
  next
    case (Inr resp)
    with assms(1) cr
    have "tool_loop env client config options resp (top_message resp) 0 st3 w1 = Some (Inr r, st', w')"
      by (simp add: run_unfold[OF assms(2,3)] Let_def st3_def[symmetric])
    from tool_loop_result[OF this] show ?thesis unfolding st3_def by simp
  qed
qed

lemma run_error:
  assumes "run env u options st w = Some (Inl e, st', w')"
      and "createClient env w = Inr client" and "loadConfig env w = Inr config"
  shows "\<exists>rounds rest. list_all round_ok rounds \<and>
           history st' = history (begin_turn env config u (reset_on_request env options st w) w) @
                         concat (map round_messages rounds) @ rest \<and>
           (rest = [] \<or> (\<exists>c tcs. rest = [Assistant c (Some tcs)] \<and> tcs \<noteq> []))"
proof -
  define st3 where "st3 = begin_turn env config u (reset_on_request env options st w) w"
  obtain r1 w1 where cr: "chat_completions_create env client
                      (build_request config options
                         (System (systemPrompt (openai config)) # history st3)) w = (r1, w1)"
    by (cases "chat_completions_create env client
                      (build_request config options
                         (System (systemPrompt (openai config)) # history st3)) w") auto
  show ?thesis
  proof (cases r1)
    case (Inl e1)
    with assms(1) cr have "st' = st3"
      by (simp add: run_unfold[OF assms(2,3)] Let_def st3_def[symmetric])
    then have "list_all round_ok [] \<and>
               history st' = history st3 @ concat (map round_messages []) @ [] \<and>
               ([] = ([]::message list) \<or> (\<exists>c tcs. [] = [Assistant c (Some tcs)] \<and> tcs \<noteq> []))"
      by simp
    then show ?thesis unfolding st3_def by blast
  next
    case (Inr resp)
    with assms(1) cr
    have "tool_loop env client config options resp (top_message resp) 0 st3 w1 = Some (Inl e, st', w')"
      by (simp add: run_unfold[OF assms(2,3)] Let_def st3_def[symmetric])
    from tool_loop_error[OF this] show ?thesis unfolding st3_def by simp
  qed
qed

lemma tool_messages_nth:
  "length outs = length tcs \<Longrightarrow> i < length tcs \<Longrightarrow>
   tool_messages tcs outs ! i = Tool (call_id (tcs ! i)) (outs ! i)"
  by (simp add: tool_messages_def)

lemma requested_calls_None:
  "am = None \<or> (\<exists>m. am = Some m \<and> (tool_calls m = None \<or> tool_calls m = Some [])) \<Longrightarrow>
   requested_calls am = None"
  by (auto simp: requested_calls_def)

lemma begin_turn_last:
  assumes "1 \<le> maxHistoryLength (agent config)"
  shows "history (begin_turn env config u st w) \<noteq> [] \<and>
         last (history (begin_turn env config u st w)) = User u"
proof -
  let ?h = "history st @ [User u]"
  let ?k = "maxHistoryLength (agent config) * 2"
  have k: "0 < ?k" using assms by simp
  show ?thesis
  proof (cases "length ?h > ?k")
    case True
    then have d: "length ?h - ?k < length ?h" using k by simp
    have "history (begin_turn env config u st w) = drop (length ?h - ?k) ?h"
      using True k by (simp add: history_begin_turn Let_def slice_last_def)
    moreover have "drop (length ?h - ?k) ?h \<noteq> []" using d by simp
    moreover have "last (drop (length ?h - ?k) ?h) = last ?h" using d by (rule last_drop)
    ultimately show ?thesis by simp
  next
    case False
    then show ?thesis by (simp add: history_begin_turn Let_def)
  qed
qed

lemma begin_turn_length:
  assumes "1 \<le> maxHistoryLength (agent config)"
  shows "length (history (begin_turn env config u st w)) \<le> 2 * maxHistoryLength (agent config)"
  using assms by (auto simp: history_begin_turn Let_def slice_last_def)

subsection \<open>Runs in the scripted environment\<close>

lemma observed:
  assumes "outcome x = Some res" and "final_history x = Some h"
  obtains st' w' where "x = Some (res, st', w')" and "history st' = h"
  using assms by (cases x) (auto simp: outcome_def final_history_def)

lemma demo_client: "createClient demo_env w = Inr ''sk-test''"
  by (simp add: createClient_def demo_env_def)

lemma demo_load: "loadConfig demo_env (demo_world0 answers n) = Inr (demo_config n)"
  by (simp add: demo_env_def demo_world0_def)

lemma demo_failed_outcome:
  "outcome (run demo_env ''How many unread emails do I have?'' no_options (initial_store 0)
              (demo_world0 [asks_unread ''call_1'' ''{}''] 20)) =
     Some (Inl (Error ''Connection error.''))"
  by code_simp

lemma demo_failed_history:
  "final_history (run demo_env ''How many unread emails do I have?'' no_options (initial_store 0)
              (demo_world0 [asks_unread ''call_1'' ''{}''] 20)) =
     Some [User ''How many unread emails do I have?'',
           Assistant None (Some [unread_call ''call_1'' ''{}'']),
           Tool ''call_1'' ''You have 3 unread emails in your inbox.'']"
  by code_simp

lemma history_initial [simp]: "history (initial_store d) = []"
  by (simp add: initial_store_def history_def)

lemma demo_begin:
  "1 \<le> n \<Longrightarrow>
   history (begin_turn demo_env (demo_config n) u
              (reset_on_request demo_env no_options (initial_store 0) w) w) = [User u]"
  by (simp add: history_begin_turn Let_def reset_on_request_def no_options_def demo_config_def)

lemma demo_exec:
  "execute_tool_calls demo_env [unread_call ''call_1'' ''{}''] [] 0 (demo_world0 [] 20) =
   (Inr ([Tool ''call_1'' ''You have 3 unread emails in your inbox.''], 1),
    (demo_world0 [] 20)\<lparr>console := [''  [Tool: gmail_get_unread_count]'']\<rparr>)"
  by (simp add: demo_env_def demo_runtime_def demo_world0_def executeGmailTool_def unread_call_def
      executeToolInternal_def demo_gmail_def demo_call_def show_int_def show_nat.simps digit_def Let_def)

lemma demo_requested:
  "requested_calls (top_message (asking [unread_call ''call_1'' ''{}''])) =
     Some [unread_call ''call_1'' ''{}'']"
  by (simp add: requested_calls_def top_message_def asking_def)

lemma demo_parse_fails:
  "JSON_parse (runtime demo_env)
     (if fn_arguments (unread_call ''call_1'' ''{'') = [] then ''{}''
      else fn_arguments (unread_call ''call_1'' ''{'')) =
   Inl (Error ''Unexpected end of JSON input'')"
  by (simp add: demo_env_def demo_runtime_def unread_call_def)

lemma demo_requested_malformed:
  "requested_calls (top_message (asking [unread_call ''call_1'' ''{''])) =
     Some [unread_call ''call_1'' ''{'']"
  by (simp add: requested_calls_def top_message_def asking_def)

subsection \<open>The claims about the loop\<close>

text \<open>
  A round of the loop whose tool calls are carried out. When the assistant message of a
  completion requests the tool calls \<open>tcs\<close> (a present, non-empty list) and the \<^verbatim>\<open>for\<close>
  loop over them returns, it has collected exactly one tool message per call, the \<open>i\<close>-th
  one carrying the id of the \<open>i\<close>-th call, and the next completion request is built from
  the history followed by the assistant message and these tool messages, in that order.
  The \<^verbatim>\<open>for\<close> loop does return whenever every payload parses. When it throws, the
  exception leaves the loop with only the assistant message appended. Whatever the loop
  returns, what it has appended consists of complete rounds (an assistant message with
  calls, then the tool messages answering exactly these calls, in order) and a rest
  without tool messages.
\<close>

lemma tool_round_answers_calls:
  assumes "requested_calls am = Some tcs"
      and "c = (case am of None \<Rightarrow> None | Some m \<Rightarrow> content m)"
  shows "tcs \<noteq> [] \<and>
    (\<forall>toolResults count w1.
       execute_tool_calls env tcs [] cnt w = (Inr (toolResults, count), w1) \<longrightarrow>
       length toolResults = length tcs \<and>
       (\<forall>i<length tcs. \<exists>out. toolResults ! i = Tool (call_id (tcs ! i)) out) \<and>
       count = cnt + length tcs \<and>
       tool_loop env client config options resp am cnt st w =
         (let st2 = push_messages toolResults (push_messages [Assistant c (Some tcs)] st)
          in case getSystemPrompt env w1 of
               Inl e \<Rightarrow> Some (Inl e, st2, w1)
             | Inr prompt \<Rightarrow>
                 (case chat_completions_create env client
                         (build_request config options
                            (System prompt # history st @ Assistant c (Some tcs) # toolResults)) w1 of
                    (Inl e, w2) \<Rightarrow> Some (Inl e, st2, w2)
                  | (Inr resp', w2) \<Rightarrow>
                      tool_loop env client config options resp' (top_message resp') count st2 w2))) \<and>
    (\<forall>e w1.
       execute_tool_calls env tcs [] cnt w = (Inl e, w1) \<longrightarrow>
       tool_loop env client config options resp am cnt st w =
         Some (Inl e, push_messages [Assistant c (Some tcs)] st, w1)) \<and>
    (\<forall>res st' w'.
       tool_loop env client config options resp am cnt st w = Some (res, st', w') \<longrightarrow>
       (\<exists>rounds rest. list_all round_ok rounds \<and>
          history st' = history st @ concat (map round_messages rounds) @ rest \<and>
          (\<forall>m\<in>set rest. \<not> is_tool m)))"
proof (intro conjI allI impI)
  show "tcs \<noteq> []" using assms(1) by (rule requested_calls_nonempty)
next
  fix toolResults count w1
  assume ex: "execute_tool_calls env tcs [] cnt w = (Inr (toolResults, count), w1)"
  from execute_tool_calls_shape[OF ex] obtain outs where
    o: "length outs = length tcs" "toolResults = tool_messages tcs outs" "count = cnt + length tcs"
    by auto
  show "length toolResults = length tcs" using o by (simp add: tool_messages_def)
  show "count = cnt + length tcs" by (rule o(3))
  show "\<exists>out. toolResults ! i = Tool (call_id (tcs ! i)) out" if "i < length tcs" for i
    using tool_messages_nth[OF o(1) that] o(2) by blast
  show "tool_loop env client config options resp am cnt st w =
         (let st2 = push_messages toolResults (push_messages [Assistant c (Some tcs)] st)
          in case getSystemPrompt env w1 of
               Inl e \<Rightarrow> Some (Inl e, st2, w1)
             | Inr prompt \<Rightarrow>
                 (case chat_completions_create env client
                         (build_request config options
                            (System prompt # history st @ Assistant c (Some tcs) # toolResults)) w1 of
                    (Inl e, w2) \<Rightarrow> Some (Inl e, st2, w2)
                  | (Inr resp', w2) \<Rightarrow>
                      tool_loop env client config options resp' (top_message resp') count st2 w2))"
    by (simp add: tool_loop_round[OF assms(1) ex] assms(2) Let_def split: sum.splits prod.splits)
next
  fix e w1
  assume "execute_tool_calls env tcs [] cnt w = (Inl e, w1)"
  from tool_loop_crash[OF assms(1) this]
  show "tool_loop env client config options resp am cnt st w =
         Some (Inl e, push_messages [Assistant c (Some tcs)] st, w1)"
    by (simp add: assms(2))
next
  fix res st' w'
  assume "tool_loop env client config options resp am cnt st w = Some (res, st', w')"
  then obtain rounds rest where
    1: "list_all round_ok rounds"
    and 2: "history st' = history st @ concat (map round_messages rounds) @ rest"
    and 3: "case res of
           Inr r \<Rightarrow> rest = [Assistant (Some (response r)) None] \<and>
                    toolCalls r = cnt + sum_list (map round_calls rounds)
         | Inl e \<Rightarrow> rest = [] \<or> (\<exists>c tcs. rest = [Assistant c (Some tcs)] \<and> tcs \<noteq> [])"
    by (rule tool_loop_appends)
  from 3 have "\<forall>m\<in>set rest. \<not> is_tool m"
    by (cases res) auto
  with 1 2 show "\<exists>rounds rest. list_all round_ok rounds \<and>
          history st' = history st @ concat (map round_messages rounds) @ rest \<and>
          (\<forall>m\<in>set rest. \<not> is_tool m)"
    by blast
qed

lemma tool_round_answers_calls_example:
  "requested_calls (top_message (asking [unread_call ''call_1'' ''{}''])) =
     Some [unread_call ''call_1'' ''{}''] \<and>
   execute_tool_calls demo_env [unread_call ''call_1'' ''{}''] [] 0 (demo_world0 [] 20) =
     (Inr ([Tool ''call_1'' ''You have 3 unread emails in your inbox.''], 1),
      (demo_world0 [] 20)\<lparr>console := [''  [Tool: gmail_get_unread_count]'']\<rparr>) \<and>
   length [Tool ''call_1'' ''You have 3 unread emails in your inbox.''] =
     length [unread_call ''call_1'' ''{}''] \<and>
   (\<exists>out. [Tool ''call_1'' ''You have 3 unread emails in your inbox.''] ! 0 =
           Tool (call_id (unread_call ''call_1'' ''{}'')) out) \<and>
   final_history
       (run demo_env ''How many unread emails do I have?'' no_options (initial_store 0)
          (demo_world0 [asks_unread ''call_1'' ''{}'', says ''You have 3 unread emails.''] 20)) =
     Some ([User ''How many unread emails do I have?''] @
           round_messages (None, [unread_call ''call_1'' ''{}''],
                           [''You have 3 unread emails in your inbox.'']) @
           [Assistant (Some ''You have 3 unread emails.'') None])"
proof -
  note t = tool_round_answers_calls[OF demo_requested refl, of demo_env 0 "demo_world0 [] 20",
      THEN conjunct2, THEN conjunct1, rule_format, OF demo_exec]
  from t have 1: "length [Tool ''call_1'' ''You have 3 unread emails in your inbox.''] =
     length [unread_call ''call_1'' ''{}'']" by blast
  from t have "\<exists>out. [Tool ''call_1'' ''You have 3 unread emails in your inbox.''] ! 0 =
           Tool (call_id ([unread_call ''call_1'' ''{}''] ! 0)) out" by simp
  then have 2: "\<exists>out. [Tool ''call_1'' ''You have 3 unread emails in your inbox.''] ! 0 =
           Tool (call_id (unread_call ''call_1'' ''{}'')) out" by simp
  have 3: "final_history
       (run demo_env ''How many unread emails do I have?'' no_options (initial_store 0)
          (demo_world0 [asks_unread ''call_1'' ''{}'', says ''You have 3 unread emails.''] 20)) =
     Some ([User ''How many unread emails do I have?''] @
           round_messages (None, [unread_call ''call_1'' ''{}''],
                           [''You have 3 unread emails in your inbox.'']) @
           [Assistant (Some ''You have 3 unread emails.'') None])"
    by code_simp
  from demo_requested demo_exec 1 2 3 show ?thesis by (intro conjI)
qed

text \<open>
  Claim C1 asks that every assistant message with \<open>N \<ge> 1\<close> tool calls be followed by
  exactly \<open>N\<close> tool messages before the next completion request. The loop pushes the
  assistant message first and parses each payload outside the dispatcher's \<^verbatim>\<open>try\<close>: when
  the completion requests one call whose payload is \<^verbatim>\<open>{\<close>, the parser's exception ends
  \<open>run\<close> after one request, with the assistant message in the history and no tool
  message. The next call of \<open>run\<close> on that conversation sends a request in which the
  assistant message with its tool call is followed by the new user message, and the
  history it leaves holds no tool message for the call.
\<close>

theorem unanswered_tool_calls_reach_next_request:
  "outcome (run demo_env ''How many unread emails do I have?'' no_options (initial_store 0)
              (demo_world0 [asks_unread ''call_1'' ''{'', says ''Hello again.''] 20)) =
     Some (Inl (Error ''Unexpected end of JSON input'')) \<and>
   final_history (run demo_env ''How many unread emails do I have?'' no_options (initial_store 0)
              (demo_world0 [asks_unread ''call_1'' ''{'', says ''Hello again.''] 20)) =
     Some [User ''How many unread emails do I have?'',
           Assistant None (Some [unread_call ''call_1'' ''{''])] \<and>
   requests_sent (run demo_env ''How many unread emails do I have?'' no_options (initial_store 0)
              (demo_world0 [asks_unread ''call_1'' ''{'', says ''Hello again.''] 20)) =
     Some 1 \<and>
   requests_sent (then_run demo_env ''Are you there?'' no_options
             (run demo_env ''How many unread emails do I have?'' no_options (initial_store 0)
                (demo_world0 [asks_unread ''call_1'' ''{'', says ''Hello again.''] 20))) =
     Some 2 \<and>
   last_request (then_run demo_env ''Are you there?'' no_options
             (run demo_env ''How many unread emails do I have?'' no_options (initial_store 0)
                (demo_world0 [asks_unread ''call_1'' ''{'', says ''Hello again.''] 20))) =
     Some [System ''You are a helpful email assistant.'',
           User ''How many unread emails do I have?'',
           Assistant None (Some [unread_call ''call_1'' ''{'']),
           User ''Are you there?''] \<and>
   final_history (then_run demo_env ''Are you there?'' no_options
             (run demo_env ''How many unread emails do I have?'' no_options (initial_store 0)
                (demo_world0 [asks_unread ''call_1'' ''{'', says ''Hello again.''] 20))) =
     Some [User ''How many unread emails do I have?'',
           Assistant None (Some [unread_call ''call_1'' ''{'']),
           User ''Are you there?'',
           Assistant (Some ''Hello again.'') None]"
proof (intro conjI)
  show "outcome (run demo_env ''How many unread emails do I have?'' no_options (initial_store 0)
              (demo_world0 [asks_unread ''call_1'' ''{'', says ''Hello again.''] 20)) =
     Some (Inl (Error ''Unexpected end of JSON input''))"
    by code_simp
  show "final_history (run demo_env ''How many unread emails do I have?'' no_options (initial_store 0)
              (demo_world0 [asks_unread ''call_1'' ''{'', says ''Hello again.''] 20)) =
     Some [User ''How many unread emails do I have?'',
           Assistant None (Some [unread_call ''call_1'' ''{''])]"
    by code_simp
  show "requests_sent (run demo_env ''How many unread emails do I have?'' no_options (initial_store 0)
              (demo_world0 [asks_unread ''call_1'' ''{'', says ''Hello again.''] 20)) =
     Some 1"
    by code_simp
  show "requests_sent (then_run demo_env ''Are you there?'' no_options
             (run demo_env ''How many unread emails do I have?'' no_options (initial_store 0)
                (demo_world0 [asks_unread ''call_1'' ''{'', says ''Hello again.''] 20))) =
     Some 2"
    by code_simp
  show "last_request (then_run demo_env ''Are you there?'' no_options
             (run demo_env ''How many unread emails do I have?'' no_options (initial_store 0)
                (demo_world0 [asks_unread ''call_1'' ''{'', says ''Hello again.''] 20))) =
     Some [System ''You are a helpful email assistant.'',
           User ''How many unread emails do I have?'',
           Assistant None (Some [unread_call ''call_1'' ''{'']),
           User ''Are you there?'']"
    by code_simp
  show "final_history (then_run demo_env ''Are you there?'' no_options
             (run demo_env ''How many unread emails do I have?'' no_options (initial_store 0)
                (demo_world0 [asks_unread ''call_1'' ''{'', says ''Hello again.''] 20))) =
     Some [User ''How many unread emails do I have?'',
           Assistant None (Some [unread_call ''call_1'' ''{'']),
           User ''Are you there?'',
           Assistant (Some ''Hello again.'') None]"
    by code_simp
qed

text \<open>
  Claim C2. When the top message of a completion is absent or has an absent or empty
  list of tool calls, the loop stops without a further completion request (the world is
  the one it was entered with): it appends exactly one assistant message, whose content
  is the text of the message, or \<open>I was unable to generate a response.\<close> when the text
  is absent or empty, and returns this content with the number of tool calls counted so
  far. Whenever the loop returns a result, its \<open>toolCalls\<close> is the count at entry plus
  the number of tool messages appended over all rounds. When it is the first completion
  of \<open>run\<close> that has no tool calls, \<open>run\<close> returns after this one request, with
  \<open>toolCalls = 0\<close>.
\<close>

theorem final_answer_ends_loop:
  assumes "am = None \<or> (\<exists>m. am = Some m \<and> (tool_calls m = None \<or> tool_calls m = Some []))"
  shows "tool_loop env client config options resp am cnt st w =
           Some (Inr \<lparr>response = final_response am, toolCalls = cnt,
                      tokensUsed = usage_total_tokens resp\<rparr>,
                 touch (new_Date env w)
                   (push_messages [Assistant (Some (final_response am)) None] st), w) \<and>
         history (touch (new_Date env w)
                    (push_messages [Assistant (Some (final_response am)) None] st)) =
           history st @ [Assistant (Some (final_response am)) None] \<and>
         final_response am =
           (case am of
              None \<Rightarrow> ''I was unable to generate a response.''
            | Some m \<Rightarrow>
                (case content m of
                   None \<Rightarrow> ''I was unable to generate a response.''
                 | Some text \<Rightarrow>
                     if text = [] then ''I was unable to generate a response.'' else text)) \<and>
         (\<forall>resp0 am0 cnt0 st0 w0 r st' w'.
            tool_loop env client config options resp0 am0 cnt0 st0 w0 = Some (Inr r, st', w') \<longrightarrow>
            (\<exists>rounds. list_all round_ok rounds \<and>
               history st' = history st0 @ concat (map round_messages rounds) @
                             [Assistant (Some (response r)) None] \<and>
               toolCalls r =
                 cnt0 + length (filter is_tool (concat (map round_messages rounds))))) \<and>
         (\<forall>u st0 w0 st3 resp1 w1.
            createClient env w0 = Inr client \<and> loadConfig env w0 = Inr config \<and>
            st3 = begin_turn env config u (reset_on_request env options st0 w0) w0 \<and>
            chat_completions_create env client
              (build_request config options
                 (System (systemPrompt (openai config)) # history st3)) w0 = (Inr resp1, w1) \<and>
            top_message resp1 = am \<longrightarrow>
            run env u options st0 w0 =
              Some (Inr \<lparr>response = final_response am, toolCalls = 0,
                         tokensUsed = usage_total_tokens resp1\<rparr>,
                    touch (new_Date env w1)
                      (push_messages [Assistant (Some (final_response am)) None] st3), w1))"
proof (intro conjI allI impI)
  show "tool_loop env client config options resp am cnt st w =
           Some (Inr \<lparr>response = final_response am, toolCalls = cnt,
                      tokensUsed = usage_total_tokens resp\<rparr>,
                 touch (new_Date env w)
                   (push_messages [Assistant (Some (final_response am)) None] st), w)"
    by (simp add: tool_loop_exit[OF requested_calls_None[OF assms]] finish_def Let_def)
next
  show "history (touch (new_Date env w)
                    (push_messages [Assistant (Some (final_response am)) None] st)) =
           history st @ [Assistant (Some (final_response am)) None]"
    by simp
next
  show "final_response am =
           (case am of
              None \<Rightarrow> ''I was unable to generate a response.''
            | Some m \<Rightarrow>
                (case content m of
                   None \<Rightarrow> ''I was unable to generate a response.''
                 | Some text \<Rightarrow>
                     if text = [] then ''I was unable to generate a response.'' else text))"
    by (simp add: final_response_def)
next
  fix resp0 am0 cnt0 st0 w0 r st' w'
  assume "tool_loop env client config options resp0 am0 cnt0 st0 w0 = Some (Inr r, st', w')"
  from tool_loop_result[OF this] obtain rounds where
    r: "list_all round_ok rounds"
       "history st' = history st0 @ concat (map round_messages rounds) @
                             [Assistant (Some (response r)) None]"
       "toolCalls r = cnt0 + sum_list (map round_calls rounds)"
    by blast
  from r(3) tools_in_rounds[OF r(1)]
  have "toolCalls r = cnt0 + length (filter is_tool (concat (map round_messages rounds)))"
    by simp
  with r(1,2)
  show "\<exists>rounds. list_all round_ok rounds \<and>
               history st' = history st0 @ concat (map round_messages rounds) @
                             [Assistant (Some (response r)) None] \<and>
               toolCalls r =
                 cnt0 + length (filter is_tool (concat (map round_messages rounds)))"
    by blast
next
  fix u st0 w0 st3 resp1 w1
  assume a: "createClient env w0 = Inr client \<and> loadConfig env w0 = Inr config \<and>
            st3 = begin_turn env config u (reset_on_request env options st0 w0) w0 \<and>
            chat_completions_create env client
              (build_request config options
                 (System (systemPrompt (openai config)) # history st3)) w0 = (Inr resp1, w1) \<and>
            top_message resp1 = am"
  then have cl: "createClient env w0 = Inr client" and lc: "loadConfig env w0 = Inr config"
    by simp_all
  from a have "run env u options st0 w0 =
                 tool_loop env client config options resp1 am 0 st3 w1"
    by (clarsimp simp: run_unfold[OF cl lc] Let_def)
  then show "run env u options st0 w0 =
              Some (Inr \<lparr>response = final_response am, toolCalls = 0,
                         tokensUsed = usage_total_tokens resp1\<rparr>,
                    touch (new_Date env w1)
                      (push_messages [Assistant (Some (final_response am)) None] st3), w1)"
    by (simp add: tool_loop_exit[OF requested_calls_None[OF assms]] finish_def Let_def)
qed

theorem final_answer_ends_loop_witness:
  "tool_calls \<lparr>content = Some ''Hello.'', tool_calls = None\<rparr> = None \<and>
   tool_loop demo_env ''sk-test'' (demo_config 20) no_options
       \<lparr>choices = [\<lparr>content = Some ''Hello.'', tool_calls = None\<rparr>], usage_total_tokens = Some 42\<rparr>
       (Some \<lparr>content = Some ''Hello.'', tool_calls = None\<rparr>) 0 (initial_store 0)
       (demo_world0 [] 20) =
     Some (Inr \<lparr>response = ''Hello.'', toolCalls = 0, tokensUsed = Some 42\<rparr>,
           touch 1000 (push_messages [Assistant (Some ''Hello.'') None] (initial_store 0)),
           demo_world0 [] 20) \<and>
   outcome (run demo_env ''Hi'' no_options (initial_store 0) (demo_world0 [says ''Hello.''] 20)) =
     Some (Inr \<lparr>response = ''Hello.'', toolCalls = 0, tokensUsed = Some 42\<rparr>) \<and>
   final_history (run demo_env ''Hi'' no_options (initial_store 0) (demo_world0 [says ''Hello.''] 20)) =
     Some [User ''Hi'', Assistant (Some ''Hello.'') None] \<and>
   requests_sent (run demo_env ''Hi'' no_options (initial_store 0) (demo_world0 [says ''Hello.''] 20)) =
     Some 1"
proof -
  let ?m = "\<lparr>content = Some ''Hello.'', tool_calls = None\<rparr>"
  have h: "Some ?m = None \<or> (\<exists>m. Some ?m = Some m \<and> (tool_calls m = None \<or> tool_calls m = Some []))"
    by simp
  from final_answer_ends_loop[OF h, THEN conjunct1, of demo_env "''sk-test''" "demo_config 20"
      no_options "\<lparr>choices = [?m], usage_total_tokens = Some 42\<rparr>" 0 "initial_store 0" "demo_world0 [] 20"]
  have 1: "tool_loop demo_env ''sk-test'' (demo_config 20) no_options
       \<lparr>choices = [?m], usage_total_tokens = Some 42\<rparr> (Some ?m) 0 (initial_store 0)
       (demo_world0 [] 20) =
     Some (Inr \<lparr>response = ''Hello.'', toolCalls = 0, tokensUsed = Some 42\<rparr>,
           touch 1000 (push_messages [Assistant (Some ''Hello.'') None] (initial_store 0)),
           demo_world0 [] 20)"
    by (simp add: final_response_def demo_env_def demo_world0_def)
  have 2: "outcome (run demo_env ''Hi'' no_options (initial_store 0) (demo_world0 [says ''Hello.''] 20)) =
     Some (Inr \<lparr>response = ''Hello.'', toolCalls = 0, tokensUsed = Some 42\<rparr>)"
    by code_simp
  have 3: "final_history (run demo_env ''Hi'' no_options (initial_store 0) (demo_world0 [says ''Hello.''] 20)) =
     Some [User ''Hi'', Assistant (Some ''Hello.'') None]"
    by code_simp
  have 4: "requests_sent (run demo_env ''Hi'' no_options (initial_store 0) (demo_world0 [says ''Hello.''] 20)) =
     Some 1"
    by code_simp
  have 0: "tool_calls ?m = None" by simp
  from 0 1 2 3 4 show ?thesis by (intro conjI)
qed

text \<open>
  Claim C7. With the client and the configuration at hand, let \<open>st3\<close> be the store after
  the user message is pushed and the history trimmed. An exception of the first
  completion request is the outcome of \<open>run\<close>, with the store \<open>st3\<close>, whose history ends
  with the user message (for a history limit of at least 1). An exception of a completion
  request after a round of tool calls is the outcome of the loop, with the assistant
  message and the tool messages of that round in the history. And whatever \<open>run\<close>
  returns, the history of \<open>st3\<close> is a prefix of the final history: nothing is rolled back.
\<close>

theorem completion_failure_propagates:
  assumes "createClient env w = Inr client" and "loadConfig env w = Inr config"
      and "st3 = begin_turn env config u (reset_on_request env options st w) w"
  shows
   "(\<forall>e w1.
       chat_completions_create env client
         (build_request config options (System (systemPrompt (openai config)) # history st3)) w =
         (Inl e, w1) \<longrightarrow>
       run env u options st w = Some (Inl e, st3, w1)) \<and>
    (1 \<le> maxHistoryLength (agent config) \<longrightarrow> history st3 \<noteq> [] \<and> last (history st3) = User u) \<and>
    (\<forall>am tcs c cnt stl wl toolResults count w1 prompt e w2 resp.
       requested_calls am = Some tcs \<and>
       c = (case am of None \<Rightarrow> None | Some m \<Rightarrow> content m) \<and>
       execute_tool_calls env tcs [] cnt wl = (Inr (toolResults, count), w1) \<and>
       getSystemPrompt env w1 = Inr prompt \<and>
       chat_completions_create env client
         (build_request config options
            (System prompt # history stl @ Assistant c (Some tcs) # toolResults)) w1 = (Inl e, w2) \<longrightarrow>
       tool_loop env client config options resp am cnt stl wl =
         Some (Inl e, push_messages toolResults (push_messages [Assistant c (Some tcs)] stl), w2) \<and>
       history (push_messages toolResults (push_messages [Assistant c (Some tcs)] stl)) =
         history stl @ Assistant c (Some tcs) # toolResults) \<and>
    (\<forall>res st' w'. run env u options st w = Some (res, st', w') \<longrightarrow>
       prefix (history st3) (history st'))"
proof (intro conjI allI impI)
  fix e w1
  assume "chat_completions_create env client
         (build_request config options (System (systemPrompt (openai config)) # history st3)) w =
         (Inl e, w1)"
  then show "run env u options st w = Some (Inl e, st3, w1)"
    by (simp add: run_unfold[OF assms(1,2)] Let_def assms(3))
next
  assume "1 \<le> maxHistoryLength (agent config)"
  from begin_turn_last[OF this, of env u "reset_on_request env options st w" w]
  show "history st3 \<noteq> []" "last (history st3) = User u"
    unfolding assms(3) by simp_all
next
  fix am tcs c cnt stl wl toolResults count w1 prompt e w2 resp
  assume a: "requested_calls am = Some tcs \<and>
       c = (case am of None \<Rightarrow> None | Some m \<Rightarrow> content m) \<and>
       execute_tool_calls env tcs [] cnt wl = (Inr (toolResults, count), w1) \<and>
       getSystemPrompt env w1 = Inr prompt \<and>
       chat_completions_create env client
         (build_request config options
            (System prompt # history stl @ Assistant c (Some tcs) # toolResults)) w1 = (Inl e, w2)"
  then have r: "requested_calls am = Some tcs"
    and ex: "execute_tool_calls env tcs [] cnt wl = (Inr (toolResults, count), w1)"
    by simp_all
  from a show "tool_loop env client config options resp am cnt stl wl =
         Some (Inl e, push_messages toolResults (push_messages [Assistant c (Some tcs)] stl), w2)"
    by (clarsimp simp: tool_loop_round[OF r ex] Let_def)
  show "history (push_messages toolResults (push_messages [Assistant c (Some tcs)] stl)) =
         history stl @ Assistant c (Some tcs) # toolResults"
    by simp
next
  fix res st' w'
  assume run: "run env u options st w = Some (res, st', w')"
  show "prefix (history st3) (history st')"
  proof (cases res)
    case (Inl e)
    from run_error[OF run[unfolded Inl] assms(1,2)] show ?thesis
      unfolding assms(3) prefix_def by blast
  next
    case (Inr r)
    from run_result[OF run[unfolded Inr] assms(1,2)] show ?thesis
      unfolding assms(3) prefix_def by blast
  qed
qed

theorem completion_failure_propagates_witness:
  "createClient demo_env (demo_world0 [asks_unread ''call_1'' ''{}''] 20) = Inr ''sk-test'' \<and>
   loadConfig demo_env (demo_world0 [asks_unread ''call_1'' ''{}''] 20) = Inr (demo_config 20) \<and>
   (\<exists>st' w'.
      run demo_env ''How many unread emails do I have?'' no_options (initial_store 0)
          (demo_world0 [asks_unread ''call_1'' ''{}''] 20) =
        Some (Inl (Error ''Connection error.''), st', w') \<and>
      history st' =
        [User ''How many unread emails do I have?'',
         Assistant None (Some [unread_call ''call_1'' ''{}'']),
         Tool ''call_1'' ''You have 3 unread emails in your inbox.''] \<and>
      prefix [User ''How many unread emails do I have?''] (history st'))"
proof -
  from demo_failed_outcome demo_failed_history obtain st' w' where
    r: "run demo_env ''How many unread emails do I have?'' no_options (initial_store 0)
          (demo_world0 [asks_unread ''call_1'' ''{}''] 20) =
        Some (Inl (Error ''Connection error.''), st', w')"
    and h: "history st' =
        [User ''How many unread emails do I have?'',
         Assistant None (Some [unread_call ''call_1'' ''{}'']),
         Tool ''call_1'' ''You have 3 unread emails in your inbox.'']"
    by (rule observed)
  from completion_failure_propagates[OF demo_client demo_load refl,
      THEN conjunct2, THEN conjunct2, THEN conjunct2, rule_format, OF r]
  have "prefix [User ''How many unread emails do I have?''] (history st')"
    by (simp add: demo_begin)
  with r h have "\<exists>st' w'.
      run demo_env ''How many unread emails do I have?'' no_options (initial_store 0)
          (demo_world0 [asks_unread ''call_1'' ''{}''] 20) =
        Some (Inl (Error ''Connection error.''), st', w') \<and>
      history st' =
        [User ''How many unread emails do I have?'',
         Assistant None (Some [unread_call ''call_1'' ''{}'']),
         Tool ''call_1'' ''You have 3 unread emails in your inbox.''] \<and>
      prefix [User ''How many unread emails do I have?''] (history st')"
    by (intro exI[of _ st'] exI[of _ w'] conjI)
  with demo_client demo_load show ?thesis by (intro conjI)
qed

text \<open>
  Claim C10. In one call of \<open>run\<close> the history is trimmed once: \<open>st3\<close>, the store after
  the user message is pushed and the bound applied, is the store the first completion
  request is built from and the loop starts with. When \<open>run\<close> returns a result, the
  final history is the history of \<open>st3\<close> followed by everything the tool rounds
  appended and the final assistant message, with nothing removed; so its length is that of
  \<open>st3\<close> plus the number of messages of the rounds plus one, which for a history limit
  of at least 1 is at most \<open>2 * maxHistoryLength\<close> plus 2 plus the number of messages of
  the rounds. The bound can be exceeded: with a limit of 1, the scripted run with one tool
  round leaves four messages.
\<close>

theorem history_trimmed_once:
  assumes "createClient env w = Inr client" and "loadConfig env w = Inr config"
      and "st3 = begin_turn env config u (reset_on_request env options st w) w"
  shows
   "history st3 =
      (let h = history (reset_on_request env options st w) @ [User u];
           k = 2 * maxHistoryLength (agent config)
       in if k < length h then slice_last k h else h) \<and>
    run env u options st w =
      (case chat_completions_create env client
              (build_request config options
                 (System (systemPrompt (openai config)) # history st3)) w of
         (Inl e, w1) \<Rightarrow> Some (Inl e, st3, w1)
       | (Inr resp, w1) \<Rightarrow>
           tool_loop env client config options resp (top_message resp) 0 st3 w1) \<and>
    (\<forall>r st' w'.
       run env u options st w = Some (Inr r, st', w') \<longrightarrow>
       (\<exists>rounds. list_all round_ok rounds \<and>
          history st' = history st3 @ concat (map round_messages rounds) @
                        [Assistant (Some (response r)) None] \<and>
          length (history st') =
            length (history st3) + length (concat (map round_messages rounds)) + 1 \<and>
          (1 \<le> maxHistoryLength (agent config) \<longrightarrow>
             length (history st') \<le>
               2 * maxHistoryLength (agent config) +
               (2 + length (concat (map round_messages rounds)))))) \<and>
    (\<exists>r st' w'.
       run demo_env ''How many unread emails do I have?'' no_options (initial_store 0)
           (demo_world0 [asks_unread ''call_1'' ''{}'', says ''You have 3 unread emails.''] 1) =
         Some (Inr r, st', w') \<and>
       loadConfig demo_env
           (demo_world0 [asks_unread ''call_1'' ''{}'', says ''You have 3 unread emails.''] 1) =
         Inr (demo_config 1) \<and>
       2 * maxHistoryLength (agent (demo_config 1)) < length (history st'))"
proof (intro conjI allI impI)
  show "history st3 =
      (let h = history (reset_on_request env options st w) @ [User u];
           k = 2 * maxHistoryLength (agent config)
       in if k < length h then slice_last k h else h)"
    by (simp add: assms(3) history_begin_turn Let_def mult.commute)
next
  show "run env u options st w =
      (case chat_completions_create env client
              (build_request config options
                 (System (systemPrompt (openai config)) # history st3)) w of
         (Inl e, w1) \<Rightarrow> Some (Inl e, st3, w1)
       | (Inr resp, w1) \<Rightarrow>
           tool_loop env client config options resp (top_message resp) 0 st3 w1)"
    unfolding assms(3) by (simp add: run_unfold[OF assms(1,2)] Let_def)
next
  fix r st' w'
  assume "run env u options st w = Some (Inr r, st', w')"
  from run_result[OF this assms(1,2)] obtain rounds where
    1: "list_all round_ok rounds"
    and 2: "history st' = history st3 @ concat (map round_messages rounds) @
                        [Assistant (Some (response r)) None]"
    unfolding assms(3) by blast
  from 2 have 3: "length (history st') =
            length (history st3) + length (concat (map round_messages rounds)) + 1"
    by simp
  have 4: "length (history st') \<le>
               2 * maxHistoryLength (agent config) +
               (2 + length (concat (map round_messages rounds)))"
    if "1 \<le> maxHistoryLength (agent config)"
    using begin_turn_length[OF that, of env u "reset_on_request env options st w" w] 3
    unfolding assms(3) by simp
  from 1 2 3 4
  show "\<exists>rounds. list_all round_ok rounds \<and>
          history st' = history st3 @ concat (map round_messages rounds) @
                        [Assistant (Some (response r)) None] \<and>
          length (history st') =
            length (history st3) + length (concat (map round_messages rounds)) + 1 \<and>
          (1 \<le> maxHistoryLength (agent config) \<longrightarrow>
             length (history st') \<le>
               2 * maxHistoryLength (agent config) +
               (2 + length (concat (map round_messages rounds))))"
    by blast
next
  have o: "outcome (run demo_env ''How many unread emails do I have?'' no_options (initial_store 0)
           (demo_world0 [asks_unread ''call_1'' ''{}'', says ''You have 3 unread emails.''] 1)) =
      Some (Inr \<lparr>response = ''You have 3 unread emails.'', toolCalls = 1, tokensUsed = Some 42\<rparr>)"
    by code_simp
  have h: "final_history (run demo_env ''How many unread emails do I have?'' no_options (initial_store 0)
           (demo_world0 [asks_unread ''call_1'' ''{}'', says ''You have 3 unread emails.''] 1)) =
      Some [User ''How many unread emails do I have?'',
            Assistant None (Some [unread_call ''call_1'' ''{}'']),
            Tool ''call_1'' ''You have 3 unread emails in your inbox.'',
            Assistant (Some ''You have 3 unread emails.'') None]"
    by code_simp
  from o h obtain st' w' where
    r: "run demo_env ''How many unread emails do I have?'' no_options (initial_store 0)
           (demo_world0 [asks_unread ''call_1'' ''{}'', says ''You have 3 unread emails.''] 1) =
         Some (Inr \<lparr>response = ''You have 3 unread emails.'', toolCalls = 1,
                    tokensUsed = Some 42\<rparr>, st', w')"
    and l: "history st' =
           [User ''How many unread emails do I have?'',
            Assistant None (Some [unread_call ''call_1'' ''{}'']),
            Tool ''call_1'' ''You have 3 unread emails in your inbox.'',
            Assistant (Some ''You have 3 unread emails.'') None]"
    by (rule observed)
  have "2 * maxHistoryLength (agent (demo_config 1)) < length (history st')"
    by (simp add: l demo_config_def)
  with r demo_load
  show "\<exists>r st' w'.
       run demo_env ''How many unread emails do I have?'' no_options (initial_store 0)
           (demo_world0 [asks_unread ''call_1'' ''{}'', says ''You have 3 unread emails.''] 1) =
         Some (Inr r, st', w') \<and>
       loadConfig demo_env
           (demo_world0 [asks_unread ''call_1'' ''{}'', says ''You have 3 unread emails.''] 1) =
         Inr (demo_config 1) \<and>
       2 * maxHistoryLength (agent (demo_config 1)) < length (history st')"
    by (intro exI[of _ st'] exI[of _ w']
        exI[of _ "\<lparr>response = ''You have 3 unread emails.'', toolCalls = 1, tokensUsed = Some 42\<rparr>"]
        conjI)
qed


theorem history_trimmed_once_witness:
  "createClient demo_env
       (demo_world0 [asks_unread ''call_1'' ''{}'', says ''You have 3 unread emails.''] 1) =
     Inr ''sk-test'' \<and>
   loadConfig demo_env
       (demo_world0 [asks_unread ''call_1'' ''{}'', says ''You have 3 unread emails.''] 1) =
     Inr (demo_config 1) \<and>
   final_history
       (run demo_env ''How many unread emails do I have?'' no_options (initial_store 0)
          (demo_world0 [asks_unread ''call_1'' ''{}'', says ''You have 3 unread emails.''] 1)) =
     Some [User ''How many unread emails do I have?'',
           Assistant None (Some [unread_call ''call_1'' ''{}'']),
           Tool ''call_1'' ''You have 3 unread emails in your inbox.'',
           Assistant (Some ''You have 3 unread emails.'') None] \<and>
   (\<exists>st'. length (history st') = 4 \<and> 2 * maxHistoryLength (agent (demo_config 1)) < length (history st') \<and>
      length (history st') \<le> 2 * maxHistoryLength (agent (demo_config 1)) + (2 + 2))"
proof -
  let ?w = "demo_world0 [asks_unread ''call_1'' ''{}'', says ''You have 3 unread emails.''] 1"
  have h: "final_history (run demo_env ''How many unread emails do I have?'' no_options (initial_store 0) ?w) =
      Some [User ''How many unread emails do I have?'',
            Assistant None (Some [unread_call ''call_1'' ''{}'']),
            Tool ''call_1'' ''You have 3 unread emails in your inbox.'',
            Assistant (Some ''You have 3 unread emails.'') None]"
    by code_simp
  have o: "outcome (run demo_env ''How many unread emails do I have?'' no_options (initial_store 0) ?w) =
      Some (Inr \<lparr>response = ''You have 3 unread emails.'', toolCalls = 1, tokensUsed = Some 42\<rparr>)"
    by code_simp
  from o h obtain st' w' where
    r: "run demo_env ''How many unread emails do I have?'' no_options (initial_store 0) ?w =
         Some (Inr \<lparr>response = ''You have 3 unread emails.'', toolCalls = 1,
                    tokensUsed = Some 42\<rparr>, st', w')"
    and l: "history st' =
           [User ''How many unread emails do I have?'',
            Assistant None (Some [unread_call ''call_1'' ''{}'']),
            Tool ''call_1'' ''You have 3 unread emails in your inbox.'',
            Assistant (Some ''You have 3 unread emails.'') None]"
    by (rule observed)
  from history_trimmed_once[OF demo_client demo_load refl,
      THEN conjunct2, THEN conjunct2, THEN conjunct1, rule_format, OF r]
  obtain rounds where
    e: "length (history st') =
          length (history (begin_turn demo_env (demo_config 1) ''How many unread emails do I have?''
              (reset_on_request demo_env no_options (initial_store 0) ?w) ?w)) +
          length (concat (map round_messages rounds)) + 1"
    and b: "1 \<le> maxHistoryLength (agent (demo_config 1)) \<longrightarrow>
             length (history st') \<le>
               2 * maxHistoryLength (agent (demo_config 1)) +
               (2 + length (concat (map round_messages rounds)))"
    by blast
  have "length (history (begin_turn demo_env (demo_config 1) ''How many unread emails do I have?''
              (reset_on_request demo_env no_options (initial_store 0) ?w) ?w)) = 1"
    by (subst demo_begin) simp_all
  with e l have t: "length (concat (map round_messages rounds)) = 2"
    by simp
  from b t have "length (history st') \<le> 2 * maxHistoryLength (agent (demo_config 1)) + (2 + 2)"
    by (simp add: demo_config_def)
  moreover from l have "length (history st') = 4" by simp
  moreover from l have "2 * maxHistoryLength (agent (demo_config 1)) < length (history st')"
    by (simp add: demo_config_def)
  ultimately have "\<exists>st'. length (history st') = 4 \<and>
      2 * maxHistoryLength (agent (demo_config 1)) < length (history st') \<and>
      length (history st') \<le> 2 * maxHistoryLength (agent (demo_config 1)) + (2 + 2)"
    by (intro exI[of _ st'] conjI)
  with demo_client demo_load h show ?thesis by (intro conjI)
qed

text \<open>
  Claim C5 asks that a tool call whose argument payload is not valid JSON be reported
  as a failed tool result, in a tool message. The loop parses the payload before it calls
  the dispatcher, outside the dispatcher's \<^verbatim>\<open>try\<close>: when the payload of the first requested
  call does not parse, the parser's exception is the outcome of the loop (and of \<open>run\<close>),
  no tool is executed, and the history holds the assistant message with its tool calls
  and no tool message answering them.
\<close>

theorem malformed_arguments_escape:
  assumes "requested_calls am = Some (tc # rest)"
      and "JSON_parse (runtime env) (if fn_arguments tc = [] then ''{}'' else fn_arguments tc) = Inl e"
      and "c = (case am of None \<Rightarrow> None | Some m \<Rightarrow> content m)"
  shows "execute_tool_calls env (tc # rest) [] cnt w = (Inl e, w) \<and>
         tool_loop env client config options resp am cnt st w =
           Some (Inl e, push_messages [Assistant c (Some (tc # rest))] st, w) \<and>
         history (push_messages [Assistant c (Some (tc # rest))] st) =
           history st @ [Assistant c (Some (tc # rest))]"
proof -
  have ex: "execute_tool_calls env (tc # rest) [] cnt w = (Inl e, w)"
    by (simp add: assms(2))
  from tool_loop_crash[OF assms(1) ex] ex show ?thesis
    by (simp add: assms(3))
qed

theorem malformed_arguments_escape_witness:
  "requested_calls (top_message (asking [unread_call ''call_1'' ''{''])) =
     Some [unread_call ''call_1'' ''{''] \<and>
   JSON_parse (runtime demo_env)
     (if fn_arguments (unread_call ''call_1'' ''{'') = [] then ''{}''
      else fn_arguments (unread_call ''call_1'' ''{'')) =
     Inl (Error ''Unexpected end of JSON input'') \<and>
   outcome (run demo_env ''How many unread emails do I have?'' no_options (initial_store 0)
              (demo_world0 [asks_unread ''call_1'' ''{'', says ''You have 3 unread emails.''] 20)) =
     Some (Inl (Error ''Unexpected end of JSON input'')) \<and>
   final_history (run demo_env ''How many unread emails do I have?'' no_options (initial_store 0)
              (demo_world0 [asks_unread ''call_1'' ''{'', says ''You have 3 unread emails.''] 20)) =
     Some [User ''How many unread emails do I have?'',
           Assistant None (Some [unread_call ''call_1'' ''{''])] \<and>
   tool_loop demo_env ''sk-test'' (demo_config 20) no_options (asking [unread_call ''call_1'' ''{''])
       (top_message (asking [unread_call ''call_1'' ''{''])) 0
       (push_messages [User ''How many unread emails do I have?''] (initial_store 0))
       (demo_world0 [says ''You have 3 unread emails.''] 20) =
     Some (Inl (Error ''Unexpected end of JSON input''),
           push_messages [Assistant None (Some [unread_call ''call_1'' ''{''])]
             (push_messages [User ''How many unread emails do I have?''] (initial_store 0)),
           demo_world0 [says ''You have 3 unread emails.''] 20)"
proof -
  have o: "outcome (run demo_env ''How many unread emails do I have?'' no_options (initial_store 0)
              (demo_world0 [asks_unread ''call_1'' ''{'', says ''You have 3 unread emails.''] 20)) =
     Some (Inl (Error ''Unexpected end of JSON input''))"
    by code_simp
  have h: "final_history (run demo_env ''How many unread emails do I have?'' no_options (initial_store 0)
              (demo_world0 [asks_unread ''call_1'' ''{'', says ''You have 3 unread emails.''] 20)) =
     Some [User ''How many unread emails do I have?'',
           Assistant None (Some [unread_call ''call_1'' ''{''])]"
    by code_simp
  have c: "None = (case top_message (asking [unread_call ''call_1'' ''{'']) of
                     None \<Rightarrow> None | Some m \<Rightarrow> content m)"
    by (simp add: top_message_def asking_def)
  note t = malformed_arguments_escape[OF demo_requested_malformed demo_parse_fails c,
      THEN conjunct2, THEN conjunct1]
  from demo_requested_malformed demo_parse_fails o h t show ?thesis by (intro conjI)
qed

lemma snapshot_survives_trim_and_reset:
  assumes "messages (conversationState st) < next_ref st"
  shows "arrays (trim_history n st) (messages (getConversationState st)) =
           arrays st (messages (getConversationState st))"
    and "arrays (resetConversation d st) (messages (getConversationState st)) =
           arrays st (messages (getConversationState st))"
  using assms
  by (simp_all add: trim_history_def resetConversation_def new_array_def Let_def
      getConversationState_def)

text \<open>
  Claim C9 asks that the snapshot of the conversation state be a defensive copy. The
  snapshot is a new object with the fields of the live one, and its \<open>messages\<close> field is
  the reference of the live message array: messages that the store pushes afterwards
  show in the list of a snapshot taken before, and a push through the snapshot lengthens
  the live conversation. A snapshot of the empty initial conversation reads, after one
  turn of \<open>run\<close>, the user message and the answer. (The trim and the reset make a new
  array, and leave the list of an earlier snapshot as it was.)
\<close>

theorem snapshot_shares_message_list:
  "messages (getConversationState st) = messages (conversationState st) \<and>
   arrays (push_messages xs st) (messages (getConversationState st)) =
     arrays st (messages (getConversationState st)) @ xs \<and>
   getConversationLength (array_push (messages (getConversationState st)) xs st) =
     getConversationLength st + length xs \<and>
   arrays (initial_store 0) (messages (getConversationState (initial_store 0))) = [] \<and>
   snapshot_messages (getConversationState (initial_store 0))
       (run demo_env ''Hi'' no_options (initial_store 0) (demo_world0 [says ''Hello.''] 20)) =
     Some [User ''Hi'', Assistant (Some ''Hello.'') None]"
proof (intro conjI)
  show "messages (getConversationState st) = messages (conversationState st)"
    by (simp add: getConversationState_def)
  show "arrays (push_messages xs st) (messages (getConversationState st)) =
     arrays st (messages (getConversationState st)) @ xs"
    by (simp add: getConversationState_def push_messages_def array_push_def)
  show "getConversationLength (array_push (messages (getConversationState st)) xs st) =
     getConversationLength st + length xs"
    by (simp add: getConversationState_def getConversationLength_def array_push_def)
  show "arrays (initial_store 0) (messages (getConversationState (initial_store 0))) = []"
    by (simp add: getConversationState_def initial_store_def)
  show "snapshot_messages (getConversationState (initial_store 0))
       (run demo_env ''Hi'' no_options (initial_store 0) (demo_world0 [says ''Hello.''] 20)) =
     Some [User ''Hi'', Assistant (Some ''Hello.'') None]"
    by code_simp
qed

end
